theory Spec2Isabelle
  imports Main "HOL-Library.Word" "HOL-Library.Monad_Syntax"
begin

unbundle bit_operations_syntax

section \<open>JavaScript strings and numbers\<close>

text \<open>
  A JavaScript string is a sequence of UTF-16 code units; \<open>charCodeAt\<close> reads one of
  them. Text that only carries a literal of the source (a status message) stays an
  Isabelle \<open>string\<close>.
\<close>

type_synonym jstring = "16 word list"

definition lit :: "string \<Rightarrow> jstring" where
  "lit s = map (\<lambda>c. of_nat (of_char c)) s"

definition digit_unit :: "int \<Rightarrow> 16 word" where
  "digit_unit d = (if d < 10 then word_of_int (48 + d) else word_of_int (87 + d))"

text \<open>\<open>Number.prototype.toString(radix)\<close> on a non-negative integer, lower-case digits.\<close>

function to_radix :: "int \<Rightarrow> int \<Rightarrow> jstring" where
  "to_radix r n =
     (if r < 2 \<or> n < r then [digit_unit n]
      else to_radix r (n div r) @ [digit_unit (n mod r)])"
  by pat_completeness auto
termination
  by (relation "measure (\<lambda>(r, n). nat n)") (auto intro: int_div_less_self)

declare to_radix.simps [simp del]

definition number_to_string :: "int \<Rightarrow> jstring" where
  "number_to_string n = (if n < 0 then lit ''-'' @ to_radix 10 (- n) else to_radix 10 n)"

text \<open>A number printed with leading zeros up to a fixed width.\<close>

definition pad_left :: "nat \<Rightarrow> int \<Rightarrow> jstring" where
  "pad_left w n = (let ds = to_radix 10 n in replicate (w - length ds) (digit_unit 0) @ ds)"

section \<open>Dates\<close>

text \<open>
  A \<open>Date\<close> holds a time value: milliseconds since 1970-01-01T00:00:00Z. The functions
  below are the day and year arithmetic of the language standard, which
  \<open>toISOString\<close> and \<open>Date.parse\<close> are defined by.
\<close>

definition msPerDay :: int where
  "msPerDay = 86400000"

definition Day :: "int \<Rightarrow> int" where
  "Day t = t div msPerDay"

definition TimeWithinDay :: "int \<Rightarrow> int" where
  "TimeWithinDay t = t mod msPerDay"

definition DayFromYear :: "int \<Rightarrow> int" where
  "DayFromYear y =
     365 * (y - 1970) + (y - 1969) div 4 - (y - 1901) div 100 + (y - 1601) div 400"

definition InLeapYear :: "int \<Rightarrow> bool" where
  "InLeapYear y = (y mod 4 = 0 \<and> (y mod 100 \<noteq> 0 \<or> y mod 400 = 0))"

text \<open>The largest year whose first day is not after day \<open>d\<close>, searched upwards from \<open>y\<close>.\<close>

function year_from :: "int \<Rightarrow> int \<Rightarrow> int" where
  "year_from d y = (if DayFromYear (y + 1) \<le> d then year_from d (y + 1) else y)"
  by pat_completeness auto
termination
  by (relation "measure (\<lambda>(d, y). nat (d - DayFromYear y))")
     (auto simp: DayFromYear_def)

declare year_from.simps [simp del]

definition YearFromDay :: "int \<Rightarrow> int" where
  "YearFromDay d = year_from d (1970 + (if 0 \<le> d then d div 366 else d div 365 - 1))"

text \<open>Days before the first of each month, counted from the first of January.\<close>

definition month_starts :: "bool \<Rightarrow> int list" where
  "month_starts leap =
     (if leap then [0, 31, 60, 91, 121, 152, 182, 213, 244, 274, 305, 335, 366]
      else [0, 31, 59, 90, 120, 151, 181, 212, 243, 273, 304, 334, 365])"

text \<open>The month (0 to 11) that day \<open>n\<close> of the year falls in.\<close>

definition MonthFromDay :: "bool \<Rightarrow> int \<Rightarrow> nat" where
  "MonthFromDay leap n = length (filter (\<lambda>s. s \<le> n) (tl (month_starts leap)))"

definition year_string :: "int \<Rightarrow> jstring" where
  "year_string y =
     (if 0 \<le> y \<and> y \<le> 9999 then pad_left 4 y
      else if y < 0 then lit ''-'' @ pad_left 6 (- y)
      else lit ''+'' @ pad_left 6 y)"

text \<open>\<open>Date.prototype.toISOString\<close>: \<open>YYYY-MM-DDTHH:mm:ss.sssZ\<close>, in UTC.\<close>

definition toISOString :: "int \<Rightarrow> jstring" where
  "toISOString t =
     (let d = Day t; r = TimeWithinDay t;
          y = YearFromDay d; n = d - DayFromYear y;
          m = MonthFromDay (InLeapYear y) n;
          dd = n - month_starts (InLeapYear y) ! m + 1
      in year_string y @ lit ''-'' @ pad_left 2 (int m + 1) @ lit ''-'' @ pad_left 2 dd
         @ lit ''T'' @ pad_left 2 (r div 3600000) @ lit '':'' @ pad_left 2 (r div 60000 mod 60)
         @ lit '':'' @ pad_left 2 (r div 1000 mod 60) @ lit ''.'' @ pad_left 3 (r mod 1000)
         @ lit ''Z'')"

text \<open>
  \<open>Date.parse\<close>. The language standard fixes how a string in its Date Time String Format
  is read: a date \<open>YYYY\<close>, \<open>YYYY-MM\<close> or \<open>YYYY-MM-DD\<close> (the year with four digits, or a
  sign and six), alone or followed by \<open>T\<close> and a time \<open>HH:mm\<close>, \<open>HH:mm:ss\<close> or
  \<open>HH:mm:ss.sss\<close>, the time followed or not by \<open>Z\<close> or an offset \<open>+HH:mm\<close>, \<open>-HH:mm\<close>. A
  date alone is a time in UTC; a date and time without \<open>Z\<close> or offset is a local time.
  Every other string, and a string of the format with a value out of its bounds, is left
  to the implementation.
\<close>

fun read_num :: "nat \<Rightarrow> int \<Rightarrow> jstring \<Rightarrow> (int \<times> jstring) option" where
  "read_num 0 acc s = Some (acc, s)"
| "read_num (Suc n) acc [] = None"
| "read_num (Suc n) acc (c # cs) =
     (if 48 \<le> c \<and> c \<le> 57 then read_num n (10 * acc + (uint c - 48)) cs else None)"

fun expect :: "16 word \<Rightarrow> jstring \<Rightarrow> jstring option" where
  "expect c [] = None"
| "expect c (d # ds) = (if c = d then Some ds else None)"

definition read_year :: "jstring \<Rightarrow> (int \<times> jstring) option" where
  "read_year s =
     (case s of
        [] \<Rightarrow> None
      | c # cs \<Rightarrow>
          if c = 43 then read_num 6 0 cs
          else if c = 45 then
            (case read_num 6 0 cs of
               None \<Rightarrow> None
             | Some (y, r) \<Rightarrow> if y = 0 then None else Some (- y, r))
          else read_num 4 0 s)"

text \<open>The date: year, month and day, a part that is left out being \<open>01\<close>.\<close>

definition read_date :: "jstring \<Rightarrow> ((int \<times> int \<times> int) \<times> jstring) option" where
  "read_date s0 =
     do {
       (y, s1) \<leftarrow> read_year s0;
       case expect 45 s1 of
         None \<Rightarrow> Some ((y, 1, 1), s1)
       | Some s2 \<Rightarrow>
           do {
             (mo, s3) \<leftarrow> read_num 2 0 s2;
             case expect 45 s3 of
               None \<Rightarrow> Some ((y, mo, 1), s3)
             | Some s4 \<Rightarrow>
                 do {
                   (dd, s5) \<leftarrow> read_num 2 0 s4;
                   Some ((y, mo, dd), s5)
                 }
           }
     }"

text \<open>The time: hours and minutes, then seconds and milliseconds if they are written.\<close>

definition read_time :: "jstring \<Rightarrow> ((int \<times> int \<times> int \<times> int) \<times> jstring) option" where
  "read_time s0 =
     do {
       (h, s1) \<leftarrow> read_num 2 0 s0;
       s2 \<leftarrow> expect 58 s1;
       (mi, s3) \<leftarrow> read_num 2 0 s2;
       case expect 58 s3 of
         None \<Rightarrow> Some ((h, mi, 0, 0), s3)
       | Some s4 \<Rightarrow>
           do {
             (sec, s5) \<leftarrow> read_num 2 0 s4;
             case expect 46 s5 of
               None \<Rightarrow> Some ((h, mi, sec, 0), s5)
             | Some s6 \<Rightarrow>
                 do {
                   (ms, s7) \<leftarrow> read_num 3 0 s6;
                   Some ((h, mi, sec, ms), s7)
                 }
           }
     }"

text \<open>What ends a date and time: \<open>Z\<close>, or an offset from UTC, in minutes. Nothing at all
  makes it a local time, which the standard format does not fix.\<close>

definition read_offset :: "jstring \<Rightarrow> int option" where
  "read_offset s =
     (case s of
        [] \<Rightarrow> None
      | c # cs \<Rightarrow>
          if c = 90 then (if cs = [] then Some 0 else None)
          else if c = 43 \<or> c = 45 then
            do {
              (oh, s1) \<leftarrow> read_num 2 0 cs;
              s2 \<leftarrow> expect 58 s1;
              (om, s3) \<leftarrow> read_num 2 0 s2;
              if s3 = [] \<and> oh \<le> 23 \<and> om \<le> 59
              then Some ((if c = 45 then - 1 else 1) * (oh * 60 + om))
              else None
            }
          else None)"

text \<open>The time value of a date and a time of day in UTC, when every part is within its
  bounds: the month from 1 to 12, the day within the month, the time up to \<open>24:00:00\<close>.\<close>

definition MakeTime :: "int \<Rightarrow> int \<Rightarrow> int \<Rightarrow> int \<Rightarrow> int \<Rightarrow> int \<Rightarrow> int \<Rightarrow> int option" where
  "MakeTime y mo dd h mi sec ms =
     (let starts = month_starts (InLeapYear y) in
      if mo < 1 \<or> 12 < mo \<or> dd < 1 \<or> 59 < mi \<or> 59 < sec
         \<or> (23 < h \<and> \<not> (h = 24 \<and> mi = 0 \<and> sec = 0 \<and> ms = 0))
      then None
      else if starts ! nat mo - starts ! nat (mo - 1) < dd then None
      else Some ((DayFromYear y + starts ! nat (mo - 1) + dd - 1) * msPerDay
                 + h * 3600000 + mi * 60000 + sec * 1000 + ms))"

definition Date_Time_String :: "jstring \<Rightarrow> int option" where
  "Date_Time_String s0 =
     do {
       ((y, mo, dd), s1) \<leftarrow> read_date s0;
       if s1 = [] then MakeTime y mo dd 0 0 0 0
       else
         do {
           s2 \<leftarrow> expect 84 s1;
           ((h, mi, sec, ms), s3) \<leftarrow> read_time s2;
           offset \<leftarrow> read_offset s3;
           t \<leftarrow> MakeTime y mo dd h mi sec ms;
           Some (t - offset * 60000)
         }
     }"

text \<open>A time value further than 8.64e15 ms from the epoch is \<open>NaN\<close>.\<close>

definition TimeClip :: "int \<Rightarrow> int option" where
  "TimeClip t = (if \<bar>t\<bar> \<le> 8640000000000000 then Some t else None)"

text \<open>
  \<open>Date.parse\<close>, with \<open>None\<close> for \<open>NaN\<close>. \<open>runtime\<close> is what the implementation that runs the
  program makes of a string that the standard format does not settle.
\<close>

definition Date_parse :: "(jstring \<Rightarrow> int option) \<Rightarrow> jstring \<Rightarrow> int option" where
  "Date_parse runtime s =
     (case Date_Time_String s of
        Some t \<Rightarrow> TimeClip t
      | None \<Rightarrow> (case runtime s of None \<Rightarrow> None | Some t \<Rightarrow> TimeClip t))"

section \<open>The data model\<close>

text \<open>
  A timestamp field holds a \<open>Date\<close> in a record read from the local store, and the
  ISO-8601 text that \<open>JSON.stringify\<close> wrote for it in a record read from a backup file.
\<close>

datatype timestamp = DateObj int | InvalidDate | DateText jstring | DateNull

text \<open>
  \<open>new Date(x).getTime()\<close>, with \<open>None\<close> for \<open>NaN\<close>. \<open>InvalidDate\<close> is a \<open>Date\<close> whose
  time value is \<open>NaN\<close>; \<open>JSON.stringify\<close> writes it as \<open>null\<close>, which reads back as
  \<open>DateNull\<close>, and \<open>new Date(null)\<close> is the epoch.
\<close>

fun getTime :: "(jstring \<Rightarrow> int option) \<Rightarrow> timestamp \<Rightarrow> int option" where
  "getTime runtime (DateObj t) = Some t"
| "getTime runtime InvalidDate = None"
| "getTime runtime (DateText s) = Date_parse runtime s"
| "getTime runtime DateNull = Some 0"

definition new_Date :: "(jstring \<Rightarrow> int option) \<Rightarrow> timestamp \<Rightarrow> timestamp" where
  "new_Date runtime x = (case getTime runtime x of None \<Rightarrow> InvalidDate | Some t \<Rightarrow> DateObj t)"

text \<open>
  The fields every stored object has. The identifier is optional (\<open>id?: number\<close>); the
  store assigns it when the object is added.
\<close>

record row =
  id' :: "nat option"
  createdAt :: timestamp
  updatedAt :: timestamp

record stat = row +
  name :: jstring
  color :: jstring
  order :: int

record entry = row +
  statId :: nat
  "value" :: int
  date :: jstring

record dataset =
  stats :: "stat list"
  entries :: "entry list"

record BackupMetadata =
  version :: nat
  exportedAt :: jstring
  appVersion :: jstring
  entryCount :: nat
  statCount :: nat
  checksum :: jstring

record BackupFile =
  metadata :: BackupMetadata
  data :: dataset

section \<open>The checksum\<close>

text \<open>
  \<open>JSON.stringify\<close> of a string: the quotation mark, the backslash and the control
  characters are escaped, a surrogate without its partner is written as \<open>\uXXXX\<close>.
\<close>

definition hex4 :: "16 word \<Rightarrow> jstring" where
  "hex4 c = (let ds = to_radix 16 (uint c) in replicate (4 - length ds) (digit_unit 0) @ ds)"

definition escape_unit :: "16 word \<Rightarrow> jstring" where
  "escape_unit c =
     (if c = 8 then lit [CHR 0x5C, CHR ''b'']
      else if c = 9 then lit [CHR 0x5C, CHR ''t'']
      else if c = 10 then lit [CHR 0x5C, CHR ''n'']
      else if c = 12 then lit [CHR 0x5C, CHR ''f'']
      else if c = 13 then lit [CHR 0x5C, CHR ''r'']
      else if c = 34 then lit [CHR 0x5C, CHR 0x22]
      else if c = 92 then lit [CHR 0x5C, CHR 0x5C]
      else if c < 32 \<or> (0xD800 \<le> c \<and> c \<le> 0xDFFF) then lit [CHR 0x5C, CHR ''u''] @ hex4 c
      else [c])"

fun quote_units :: "jstring \<Rightarrow> jstring" where
  "quote_units [] = []"
| "quote_units [c] = escape_unit c"
| "quote_units (c # d # ds) =
     (if 0xD800 \<le> c \<and> c \<le> 0xDBFF \<and> 0xDC00 \<le> d \<and> d \<le> 0xDFFF
      then c # d # quote_units ds
      else escape_unit c @ quote_units (d # ds))"

definition QuoteJSONString :: "jstring \<Rightarrow> jstring" where
  "QuoteJSONString s = [34] @ quote_units s @ [34]"

text \<open>A \<open>Date\<close> is serialised through \<open>toJSON\<close>, that is \<open>toISOString\<close>.\<close>

fun stringify_timestamp :: "timestamp \<Rightarrow> jstring" where
  "stringify_timestamp (DateObj t) = QuoteJSONString (toISOString t)"
| "stringify_timestamp InvalidDate = lit ''null''"
| "stringify_timestamp (DateText s) = QuoteJSONString s"
| "stringify_timestamp DateNull = lit ''null''"

text \<open>A property whose value is \<open>undefined\<close> is left out of the object.\<close>

definition stringify_id :: "nat option \<Rightarrow> jstring" where
  "stringify_id i =
     (case i of None \<Rightarrow> [] | Some k \<Rightarrow> lit [CHR 0x22, CHR ''i'', CHR ''d'', CHR 0x22, CHR '':''] @ number_to_string (int k) @ lit '','')"

definition key :: "string \<Rightarrow> jstring" where
  "key k = QuoteJSONString (lit k) @ lit '':''"

text \<open>The objects that the checksum is taken of: \<open>{id, name, updatedAt}\<close> of a stat and
  \<open>{id, value, updatedAt}\<close> of an entry.\<close>

definition stat_projection :: "stat \<Rightarrow> nat option \<times> jstring \<times> timestamp" where
  "stat_projection s = (id' s, name s, updatedAt s)"

definition entry_projection :: "entry \<Rightarrow> nat option \<times> int \<times> timestamp" where
  "entry_projection e = (id' e, value e, updatedAt e)"

fun stringify_stat_projection :: "nat option \<times> jstring \<times> timestamp \<Rightarrow> jstring" where
  "stringify_stat_projection (i, n, u) =
     lit ''{'' @ stringify_id i @ key ''name'' @ QuoteJSONString n @ lit '',''
       @ key ''updatedAt'' @ stringify_timestamp u @ lit ''}''"

fun stringify_entry_projection :: "nat option \<times> int \<times> timestamp \<Rightarrow> jstring" where
  "stringify_entry_projection (i, v, u) =
     lit ''{'' @ stringify_id i @ key ''value'' @ number_to_string v @ lit '',''
       @ key ''updatedAt'' @ stringify_timestamp u @ lit ''}''"

fun join_comma :: "jstring list \<Rightarrow> jstring" where
  "join_comma [] = []"
| "join_comma [x] = x"
| "join_comma (x # y # ys) = x @ lit '','' @ join_comma (y # ys)"

definition stringify_projection ::
  "(nat option \<times> jstring \<times> timestamp) list \<Rightarrow> (nat option \<times> int \<times> timestamp) list \<Rightarrow> jstring" where
  "stringify_projection ss es =
     lit ''{'' @ key ''stats'' @ lit ''['' @ join_comma (map stringify_stat_projection ss)
       @ lit ''],'' @ key ''entries'' @ lit ''[''
       @ join_comma (map stringify_entry_projection es) @ lit '']}''"

text \<open>
  The hash is a \<open>Number\<close> that holds a 32-bit signed value after every round: the shift
  and the bitwise \<open>&\<close> convert their operands with \<open>ToInt32\<close>, the subtraction and the
  addition between them are exact.
\<close>

definition ToInt32 :: "int \<Rightarrow> int" where
  "ToInt32 x = signed_take_bit 31 x"

definition hash_round :: "int \<Rightarrow> 16 word \<Rightarrow> int" where
  "hash_round hash c =
     (let char = uint c;
          hash1 = ToInt32 (push_bit 5 (ToInt32 hash)) - hash + char
      in ToInt32 hash1 AND ToInt32 hash1)"

definition generateChecksum :: "dataset \<Rightarrow> jstring" where
  "generateChecksum d =
     (let str = stringify_projection (map stat_projection (stats d))
                                     (map entry_projection (entries d));
          hash = foldl hash_round 0 str
      in to_radix 16 \<bar>hash\<bar>)"

section \<open>The world the engine runs in\<close>

text \<open>
  \<open>JSON.parse (JSON.stringify x)\<close>: a \<open>Date\<close> comes back as its ISO-8601 text, every other
  field as it was.
\<close>

fun wire_timestamp :: "timestamp \<Rightarrow> timestamp" where
  "wire_timestamp (DateObj t) = DateText (toISOString t)"
| "wire_timestamp InvalidDate = DateNull"
| "wire_timestamp (DateText s) = DateText s"
| "wire_timestamp DateNull = DateNull"

definition wire_row :: "'a row_scheme \<Rightarrow> 'a row_scheme" where
  "wire_row r =
     r\<lparr>createdAt := wire_timestamp (createdAt r), updatedAt := wire_timestamp (updatedAt r)\<rparr>"

definition wire_dataset :: "dataset \<Rightarrow> dataset" where
  "wire_dataset d = \<lparr>stats = map wire_row (stats d), entries = map wire_row (entries d)\<rparr>"

definition wire_backup :: "BackupFile \<Rightarrow> BackupFile" where
  "wire_backup b = \<lparr>metadata = metadata b, data = wire_dataset (data b)\<rparr>"

text \<open>
  A text handed to \<open>JSON.parse\<close> is represented by what it parses to, as far as the code
  reads it: not JSON at all, the value \<open>null\<close>, or a value with the top-level members
  the code knows (a member that is absent reads as \<open>undefined\<close>; a number, a string or
  an array at the top level has none of them).
\<close>

record members =
  m_stats :: "stat list option"
  m_entries :: "entry list option"
  m_exportedAt :: "jstring option"
  m_metadata :: "BackupMetadata option"
  m_data :: "dataset option"

datatype json_text = Malformed | Null_text | Object_text members

text \<open>What a \<open>throw\<close> or a rejected promise carries: an \<open>Error\<close> with its message, or
  some other value.\<close>

datatype thrown = Error jstring | NonError

text \<open>
  The environment's part in a run. Every call that leaves the program (a store operation,
  an HTTP request) takes the next event: \<open>Pass\<close> lets it succeed, \<open>Raise\<close> makes it
  throw, \<open>Http n\<close> answers a request with status \<open>n\<close>. When no event is left the call
  succeeds.
\<close>

datatype event = Pass | Raise thrown | Http nat

datatype request = ListFiles | Upload "jstring option" BackupFile | Download jstring

text \<open>An object store with an auto-incremented primary key: its rows in key order, and
  its key generator.\<close>

record 'a table =
  rows :: "'a list"
  next_key :: nat

record Settings =
  settings_id :: "nat option"
  daysToShow :: int
  lastStatId :: "nat option"
  syncEnabled :: "bool option"
  lastSyncTime :: "jstring option"
  lastSyncChecksum :: "jstring option"
  driveFileId :: "jstring option"
  settings_createdAt :: "timestamp option"
  settings_updatedAt :: "timestamp option"

record DriveFile =
  file_id :: jstring
  file_name :: jstring
  modifiedTime :: jstring
  content :: BackupFile

text \<open>The world: the three tables of the local store, the files of the remote host and its
  next file identifier, the time, the events to come, the requests sent so far, and the
  \<open>Date.parse\<close> of the JavaScript runtime on strings outside the standard format.\<close>

record world =
  db_stats :: "stat table"
  db_entries :: "entry table"
  db_settings :: "Settings list"
  drive :: "DriveFile list"
  drive_next_id :: nat
  clock :: int
  faults :: "event list"
  requests :: "request list"
  runtime :: "jstring \<Rightarrow> int option"

text \<open>An asynchronous computation: it ends with a value or with something thrown, and
  leaves the world changed.\<close>

type_synonym 'a io = "world \<Rightarrow> (thrown + 'a) \<times> world"

definition return :: "'a \<Rightarrow> 'a io" where
  "return x w = (Inr x, w)"

definition throw :: "thrown \<Rightarrow> 'a io" where
  "throw e w = (Inl e, w)"

definition await :: "'a io \<Rightarrow> ('a \<Rightarrow> 'b io) \<Rightarrow> 'b io" where
  "await m f w = (case m w of (Inl e, w') \<Rightarrow> (Inl e, w') | (Inr x, w') \<Rightarrow> f x w')"

definition get :: "(world \<Rightarrow> 'a) \<Rightarrow> 'a io" where
  "get f w = (Inr (f w), w)"

definition modify :: "(world \<Rightarrow> world) \<Rightarrow> unit io" where
  "modify f w = (Inr (), f w)"

definition next_event :: "event io" where
  "next_event w = (case faults w of [] \<Rightarrow> (Inr Pass, w) | e # es \<Rightarrow> (Inr e, w\<lparr>faults := es\<rparr>))"

text \<open>The turn of a store operation.\<close>

definition store_op :: "unit io" where
  "store_op = await next_event (\<lambda>e. case e of Raise x \<Rightarrow> throw x | _ \<Rightarrow> return ())"

text \<open>\<open>fetch\<close> and the check of \<open>response.ok\<close> that follows it in each transport function.\<close>

definition fetch :: "request \<Rightarrow> string \<Rightarrow> unit io" where
  "fetch rq failure =
     await (modify (\<lambda>w. w\<lparr>requests := requests w @ [rq]\<rparr>)) (\<lambda>_.
     await next_event (\<lambda>e.
       case e of
         Raise x \<Rightarrow> throw x
       | Http n \<Rightarrow>
           if 200 \<le> n \<and> n \<le> 299 then return ()
           else throw (Error (lit failure @ number_to_string (int n)))
       | Pass \<Rightarrow> return ()))"

section \<open>The local store\<close>

definition key_of :: "'a row_scheme \<Rightarrow> nat" where
  "key_of r = (case id' r of None \<Rightarrow> 0 | Some k \<Rightarrow> k)"

fun insert_row :: "'a row_scheme \<Rightarrow> 'a row_scheme list \<Rightarrow> 'a row_scheme list" where
  "insert_row x [] = [x]"
| "insert_row x (y # ys) = (if key_of x < key_of y then x # y # ys else y # insert_row x ys)"

text \<open>The \<open>creating\<close> hook of the tables: it sets both timestamps of the object to the
  current time, whatever they were.\<close>

definition creating_hook :: "int \<Rightarrow> 'a row_scheme \<Rightarrow> 'a row_scheme" where
  "creating_hook now obj = obj\<lparr>createdAt := DateObj now, updatedAt := DateObj now\<rparr>"

text \<open>
  Adding one object. The hook runs before the object is stored. An object without an
  identifier takes the next key of the generator; a key that is already in the table is
  a constraint error.
\<close>

definition add_row :: "int \<Rightarrow> 'a row_scheme \<Rightarrow> 'a row_scheme table \<Rightarrow> thrown + 'a row_scheme table" where
  "add_row now obj tbl =
     (let hooked = creating_hook now obj;
          k = (case id' hooked of None \<Rightarrow> next_key tbl | Some i \<Rightarrow> i)
      in if k \<in> set (map key_of (rows tbl)) then Inl (Error (lit ''ConstraintError''))
         else Inr \<lparr>rows = insert_row (hooked\<lparr>id' := Some k\<rparr>) (rows tbl),
                   next_key = max (next_key tbl) (k + 1)\<rparr>)"

fun add_rows :: "int \<Rightarrow> 'a row_scheme list \<Rightarrow> 'a row_scheme table \<Rightarrow> thrown + 'a row_scheme table" where
  "add_rows now [] tbl = Inr tbl"
| "add_rows now (obj # objs) tbl =
     (case add_row now obj tbl of Inl e \<Rightarrow> Inl e | Inr tbl' \<Rightarrow> add_rows now objs tbl')"

definition toArray :: "(world \<Rightarrow> 'a table) \<Rightarrow> 'a list io" where
  "toArray tbl = await store_op (\<lambda>_. get (\<lambda>w. rows (tbl w)))"

definition clear :: "(('a table \<Rightarrow> 'a table) \<Rightarrow> world \<Rightarrow> world) \<Rightarrow> unit io" where
  "clear upd = await store_op (\<lambda>_. modify (upd (\<lambda>t. t\<lparr>rows := []\<rparr>)))"

definition bulkAdd ::
  "(world \<Rightarrow> 'a row_scheme table) \<Rightarrow> (('a row_scheme table \<Rightarrow> 'a row_scheme table) \<Rightarrow> world \<Rightarrow> world)
     \<Rightarrow> 'a row_scheme list \<Rightarrow> unit io" where
  "bulkAdd tbl upd objs =
     await store_op (\<lambda>_ w.
       case add_rows (clock w) objs (tbl w) of
         Inl e \<Rightarrow> (Inl e, w)
       | Inr t \<Rightarrow> (Inr (), upd (\<lambda>_. t) w))"

text \<open>
  A read-write transaction over the stats and entries tables: when its body throws, or
  the commit fails, both tables are as they were before it began.
\<close>

definition transaction :: "'a io \<Rightarrow> 'a io" where
  "transaction body w =
     (case await body (\<lambda>x. await store_op (\<lambda>_. return x)) w of
        (Inl e, w') \<Rightarrow> (Inl e, w'\<lparr>db_stats := db_stats w, db_entries := db_entries w\<rparr>)
      | (Inr x, w') \<Rightarrow> (Inr x, w'))"

definition DEFAULT_SETTINGS :: Settings where
  "DEFAULT_SETTINGS =
     \<lparr>settings_id = None, daysToShow = 14, lastStatId = None, syncEnabled = None,
      lastSyncTime = None, lastSyncChecksum = None, driveFileId = None,
      settings_createdAt = None, settings_updatedAt = None\<rparr>"

text \<open>\<open>db.settings.toCollection().first()\<close>\<close>

definition first_settings :: "Settings option io" where
  "first_settings =
     await store_op (\<lambda>_. get (\<lambda>w. case db_settings w of [] \<Rightarrow> None | s # _ \<Rightarrow> Some s))"

definition getSettings :: "Settings io" where
  "getSettings =
     await first_settings (\<lambda>settings.
     return (case settings of None \<Rightarrow> DEFAULT_SETTINGS | Some s \<Rightarrow> s))"

text \<open>The members of a \<open>Partial<Settings>\<close> object that the program writes.\<close>

datatype update = DaysToShow int | SyncEnabled bool | LastSyncTime jstring
  | LastSyncChecksum jstring | DriveFileId jstring

fun apply_update :: "Settings \<Rightarrow> update \<Rightarrow> Settings" where
  "apply_update s (DaysToShow n) = s\<lparr>daysToShow := n\<rparr>"
| "apply_update s (SyncEnabled b) = s\<lparr>syncEnabled := Some b\<rparr>"
| "apply_update s (LastSyncTime t) = s\<lparr>lastSyncTime := Some t\<rparr>"
| "apply_update s (LastSyncChecksum c) = s\<lparr>lastSyncChecksum := Some c\<rparr>"
| "apply_update s (DriveFileId f) = s\<lparr>driveFileId := Some f\<rparr>"

text \<open>\<open>db.settings.update(key, changes)\<close>; the \<open>updating\<close> hook adds the modification time.\<close>

definition settings_update :: "nat \<Rightarrow> update list \<Rightarrow> unit io" where
  "settings_update k changes =
     await store_op (\<lambda>_.
     modify (\<lambda>w. w\<lparr>db_settings :=
       map (\<lambda>s. if settings_id s = Some k
                then (foldl apply_update s changes)\<lparr>settings_updatedAt := Some (DateObj (clock w))\<rparr>
                else s)
           (db_settings w)\<rparr>))"

definition updateSettings :: "update list \<Rightarrow> unit io" where
  "updateSettings updates =
     await first_settings (\<lambda>settings.
       case settings of
         None \<Rightarrow> return ()
       | Some s \<Rightarrow>
           (case settings_id s of
              None \<Rightarrow> return ()
            | Some k \<Rightarrow> if k \<noteq> 0 then settings_update k updates else return ()))"

text \<open>\<open>JSON.stringify({ stats, entries, exportedAt })\<close>\<close>

definition stringify_export :: "stat list \<Rightarrow> entry list \<Rightarrow> jstring \<Rightarrow> json_text" where
  "stringify_export the_stats the_entries at =
     Object_text \<lparr>m_stats = Some (map wire_row the_stats), m_entries = Some (map wire_row the_entries),
                  m_exportedAt = Some at, m_metadata = None, m_data = None\<rparr>"


definition rehydrate :: "(jstring \<Rightarrow> int option) \<Rightarrow> 'a row_scheme \<Rightarrow> 'a row_scheme" where
  "rehydrate parse s =
     s\<lparr>createdAt := new_Date parse (createdAt s), updatedAt := new_Date parse (updatedAt s)\<rparr>"

definition importData :: "json_text \<Rightarrow> unit io" where
  "importData jsonString =
     await (get runtime) (\<lambda>parse.
     case jsonString of
       Malformed \<Rightarrow> throw (Error (lit ''SyntaxError''))
     | _ \<Rightarrow>
         transaction
           (await (clear db_stats_update) (\<lambda>_.
            await (clear db_entries_update) (\<lambda>_.
              case jsonString of
                Object_text doc \<Rightarrow>
                  await (case m_stats doc of
                           None \<Rightarrow> return ()
                         | Some ss \<Rightarrow>
                             if ss \<noteq> []
                             then bulkAdd db_stats db_stats_update (map (rehydrate parse) ss)
                             else return ()) (\<lambda>_.
                  case m_entries doc of
                    None \<Rightarrow> return ()
                  | Some es \<Rightarrow>
                      if es \<noteq> []
                      then bulkAdd db_entries db_entries_update (map (rehydrate parse) es)
                      else return ())
              | _ \<Rightarrow> throw (Error (lit ''TypeError''))))))"


section \<open>The remote transport\<close>

definition BACKUP_FILENAME :: jstring where
  "BACKUP_FILENAME = lit ''feels-backup.json''"

definition listAppDataFiles :: "jstring \<Rightarrow> DriveFile list io" where
  "listAppDataFiles accessToken =
     await (fetch ListFiles ''Failed to list files: '') (\<lambda>_. get drive)"

definition findBackupFile :: "jstring \<Rightarrow> (jstring \<times> jstring) option io" where
  "findBackupFile accessToken =
     await (listAppDataFiles accessToken) (\<lambda>files.
     return (case find (\<lambda>f. file_name f = BACKUP_FILENAME) files of
               None \<Rightarrow> None
             | Some backup \<Rightarrow> Some (file_id backup, modifiedTime backup)))"

text \<open>
  The file host, as the program relies on it: a \<open>PATCH\<close> replaces the content of the file
  with that identifier, a \<open>POST\<close> creates a file under an identifier of the host's
  choosing, a \<open>GET\<close> returns the content; a request for a file that is not there is
  answered with status 404. The body of an upload is \<open>JSON.stringify(backupData)\<close>, so
  the host holds what that text parses to.
\<close>

definition host_patch :: "jstring \<Rightarrow> BackupFile \<Rightarrow> jstring io" where
  "host_patch fileId body w =
     (if fileId \<in> set (map file_id (drive w))
      then (Inr fileId,
            w\<lparr>drive := map (\<lambda>f. if file_id f = fileId
                                 then f\<lparr>content := body, modifiedTime := toISOString (clock w)\<rparr>
                                 else f) (drive w)\<rparr>)
      else (Inl (Error (lit ''Failed to upload backup: 404'')), w))"

definition host_post :: "BackupFile \<Rightarrow> jstring io" where
  "host_post body w =
     (let fileId = number_to_string (int (drive_next_id w))
      in (Inr fileId,
          w\<lparr>drive := drive w @ [\<lparr>file_id = fileId, file_name = BACKUP_FILENAME,
                                   modifiedTime = toISOString (clock w), content = body\<rparr>],
            drive_next_id := drive_next_id w + 1\<rparr>))"

definition host_get :: "jstring \<Rightarrow> BackupFile io" where
  "host_get fileId w =
     (case find (\<lambda>f. file_id f = fileId) (drive w) of
        None \<Rightarrow> (Inl (Error (lit ''Failed to download backup: 404'')), w)
      | Some f \<Rightarrow> (Inr (content f), w))"


text \<open>An identifier that is absent or the empty string is falsy: the upload creates a file.\<close>

definition uploadBackup :: "jstring \<Rightarrow> BackupFile \<Rightarrow> jstring option \<Rightarrow> jstring io" where
  "uploadBackup accessToken backupData existingFileId =
     await (fetch (Upload existingFileId backupData) ''Failed to upload backup: '') (\<lambda>_.
       case existingFileId of
         None \<Rightarrow> host_post (wire_backup backupData)
       | Some fileId \<Rightarrow>
           if fileId \<noteq> [] then host_patch fileId (wire_backup backupData)
           else host_post (wire_backup backupData))"

definition downloadBackup :: "jstring \<Rightarrow> jstring \<Rightarrow> BackupFile io" where
  "downloadBackup accessToken fileId =
     await (fetch (Download fileId) ''Failed to download backup: '') (\<lambda>_. host_get fileId)"

section \<open>The reconciliation engine\<close>

definition buildBackupFile :: "BackupFile io" where
  "buildBackupFile =
     await (toArray db_stats) (\<lambda>the_stats.
     await (toArray db_entries) (\<lambda>the_entries.
     await (get clock) (\<lambda>now.
     return
       \<lparr>metadata =
          \<lparr>version = 1, exportedAt = toISOString now, appVersion = lit ''1.0.0'',
           entryCount = length the_entries, statCount = length the_stats,
           checksum = generateChecksum \<lparr>stats = the_stats, entries = the_entries\<rparr>\<rparr>,
        data = \<lparr>stats = the_stats, entries = the_entries\<rparr>\<rparr>)))"

text \<open>A \<open>Map\<close> keeps its keys in the order of their first insertion.\<close>

fun map_set :: "nat \<Rightarrow> 'v \<Rightarrow> (nat \<times> 'v) list \<Rightarrow> (nat \<times> 'v) list" where
  "map_set k v [] = [(k, v)]"
| "map_set k v ((k', v') # kvs) =
     (if k = k' then (k, v) # kvs else (k', v') # map_set k v kvs)"

text \<open>\<open>s.id\<close> as a condition: an identifier that is absent, or zero, is falsy.\<close>

definition has_id :: "'a row_scheme \<Rightarrow> bool" where
  "has_id s = (case id' s of None \<Rightarrow> False | Some k \<Rightarrow> k \<noteq> 0)"

text \<open>\<open>new Date(a.updatedAt) > new Date(b.updatedAt)\<close>: false when either date is invalid.\<close>

definition later :: "(jstring \<Rightarrow> int option) \<Rightarrow> 'a row_scheme \<Rightarrow> 'a row_scheme \<Rightarrow> bool" where
  "later parse a b =
     (case (getTime parse (new_Date parse (updatedAt a)),
            getTime parse (new_Date parse (updatedAt b))) of
        (Some x, Some y) \<Rightarrow> y < x
      | _ \<Rightarrow> False)"

definition merge_cloud :: "'a row_scheme list \<Rightarrow> (nat \<times> 'a row_scheme) list" where
  "merge_cloud cs = foldl (\<lambda>merged s. if has_id s then map_set (key_of s) s merged else merged) [] cs"

definition merge_local ::
  "(jstring \<Rightarrow> int option) \<Rightarrow> 'a row_scheme list \<Rightarrow> (nat \<times> 'a row_scheme) list
     \<Rightarrow> (nat \<times> 'a row_scheme) list" where
  "merge_local parse ls merged0 =
     foldl (\<lambda>merged s.
              if \<not> has_id s then merged
              else (case map_of merged (key_of s) of
                      None \<Rightarrow> map_set (key_of s) s merged
                    | Some existing \<Rightarrow>
                        if later parse s existing then map_set (key_of s) s merged else merged))
           merged0 ls"

definition mergeData ::
  "(jstring \<Rightarrow> int option) \<Rightarrow> int \<Rightarrow> BackupFile \<Rightarrow> BackupFile \<Rightarrow> BackupFile" where
  "mergeData parse now local cloud =
     (let mergedStats = merge_local parse (stats (data local)) (merge_cloud (stats (data cloud)));
          mergedEntries =
            merge_local parse (entries (data local)) (merge_cloud (entries (data cloud)));
          the_stats = map snd mergedStats;
          the_entries = map snd mergedEntries
      in \<lparr>metadata =
            \<lparr>version = 1, exportedAt = toISOString now, appVersion = lit ''1.0.0'',
             entryCount = length the_entries, statCount = length the_stats,
             checksum = generateChecksum \<lparr>stats = the_stats, entries = the_entries\<rparr>\<rparr>,
          data = \<lparr>stats = the_stats, entries = the_entries\<rparr>\<rparr>)"

datatype ConflictResolution = KeepLocal | UseCloud | Merge

datatype SyncStatus = Success | Conflict | NoChanges | SyncError

record SyncResult =
  status :: SyncStatus
  message :: jstring
  cloudBackup :: "BackupFile option"
  localBackup :: "BackupFile option"

definition result :: "SyncStatus \<Rightarrow> string \<Rightarrow> SyncResult" where
  "result st msg = \<lparr>status = st, message = lit msg, cloudBackup = None, localBackup = None\<rparr>"

definition resolveConflict ::
  "jstring \<Rightarrow> jstring \<Rightarrow> BackupFile \<Rightarrow> BackupFile \<Rightarrow> ConflictResolution \<Rightarrow> SyncResult io" where
  "resolveConflict accessToken fileId local cloud resolution =
     (case resolution of
        KeepLocal \<Rightarrow>
          await (uploadBackup accessToken local (Some fileId)) (\<lambda>_.
          await (get clock) (\<lambda>now.
          await (updateSettings [LastSyncTime (toISOString now),
                                 LastSyncChecksum (checksum (metadata local))]) (\<lambda>_.
          return (result Success ''Local data uploaded to cloud''))))
      | UseCloud \<Rightarrow>
          await (importData (stringify_export (stats (data cloud)) (entries (data cloud))
                               (exportedAt (metadata cloud)))) (\<lambda>_.
          await (get clock) (\<lambda>now.
          await (updateSettings [LastSyncTime (toISOString now),
                                 LastSyncChecksum (checksum (metadata cloud))]) (\<lambda>_.
          return (result Success ''Cloud data restored to device''))))
      | Merge \<Rightarrow>
          await (get clock) (\<lambda>now.
          await (get runtime) (\<lambda>parse.
          let merged = mergeData parse now local cloud in
          await (importData (stringify_export (stats (data merged)) (entries (data merged))
                               (toISOString now))) (\<lambda>_.
          await buildBackupFile (\<lambda>newBackup.
          await (uploadBackup accessToken newBackup (Some fileId)) (\<lambda>_.
          await (updateSettings [LastSyncTime (toISOString now),
                                 LastSyncChecksum (checksum (metadata newBackup))]) (\<lambda>_.
          return (result Success ''Data merged successfully''))))))))"

definition performSync_try :: "jstring \<Rightarrow> ConflictResolution option \<Rightarrow> SyncResult io" where
  "performSync_try accessToken conflictResolution =
     await getSettings (\<lambda>settings.
     await buildBackupFile (\<lambda>local.
     await (findBackupFile accessToken) (\<lambda>existingFile.
     await (get clock) (\<lambda>now.
       case existingFile of
         None \<Rightarrow>
           await (uploadBackup accessToken local None) (\<lambda>fileId.
           await (updateSettings [DriveFileId fileId, LastSyncTime (toISOString now),
                                  LastSyncChecksum (checksum (metadata local))]) (\<lambda>_.
           return (result Success ''Backup created in Google Drive'')))
       | Some (existingId, _) \<Rightarrow>
           await (downloadBackup accessToken existingId) (\<lambda>cloud.
             if checksum (metadata cloud) = checksum (metadata local) then
               await (updateSettings [DriveFileId existingId, LastSyncTime (toISOString now)]) (\<lambda>_.
               return (result NoChanges ''Data is already in sync''))
             else if lastSyncChecksum settings = Some (checksum (metadata cloud)) then
               await (uploadBackup accessToken local (Some existingId)) (\<lambda>_.
               await (updateSettings [LastSyncTime (toISOString now),
                                      LastSyncChecksum (checksum (metadata local))]) (\<lambda>_.
               return (result Success ''Backup updated in Google Drive'')))
             else
               (case conflictResolution of
                  None \<Rightarrow>
                    return ((result Conflict ''Both local and cloud data have changed'')
                              \<lparr>cloudBackup := Some cloud, localBackup := Some local\<rparr>)
                | Some resolution \<Rightarrow>
                    resolveConflict accessToken existingId local cloud resolution))))))"

text \<open>The \<open>try\<close> block with its \<open>catch\<close>: whatever is thrown becomes an \<open>error\<close> result.\<close>

definition performSync :: "jstring \<Rightarrow> ConflictResolution option \<Rightarrow> world \<Rightarrow> SyncResult \<times> world" where
  "performSync accessToken conflictResolution w =
     (case performSync_try accessToken conflictResolution w of
        (Inr r, w') \<Rightarrow> (r, w')
      | (Inl error, w') \<Rightarrow>
          (\<lparr>status = SyncError,
            message = (case error of Error m \<Rightarrow> m | NonError \<Rightarrow> lit ''Unknown sync error''),
            cloudBackup = None, localBackup = None\<rparr>, w'))"

section \<open>What a run reads\<close>

text \<open>The local dataset, the backup file that \<open>buildBackupFile\<close> makes of it, the remote
  backup as a run finds and downloads it, and the watermark.\<close>

definition local_dataset :: "world \<Rightarrow> dataset" where
  "local_dataset w = \<lparr>stats = rows (db_stats w), entries = rows (db_entries w)\<rparr>"

definition built :: "world \<Rightarrow> BackupFile" where
  "built w =
     \<lparr>metadata =
        \<lparr>version = 1, exportedAt = toISOString (clock w), appVersion = lit ''1.0.0'',
         entryCount = length (rows (db_entries w)), statCount = length (rows (db_stats w)),
         checksum = generateChecksum (local_dataset w)\<rparr>,
      data = local_dataset w\<rparr>"

definition remote_file :: "world \<Rightarrow> (jstring \<times> BackupFile) option" where
  "remote_file w =
     (case find (\<lambda>f. file_name f = BACKUP_FILENAME) (drive w) of
        None \<Rightarrow> None
      | Some f \<Rightarrow>
          (case find (\<lambda>g. file_id g = file_id f) (drive w) of
             None \<Rightarrow> None
           | Some g \<Rightarrow> Some (file_id f, content g)))"

definition watermark :: "world \<Rightarrow> jstring option" where
  "watermark w = (case db_settings w of [] \<Rightarrow> None | s # _ \<Rightarrow> lastSyncChecksum s)"

section \<open>What the merge is to return\<close>




text \<open>
  The instant that a last-modified timestamp stands for: a \<open>Date\<close> holds it, and a text
  spells it in the ISO-8601 form \<open>YYYY-MM-DDTHH:mm:ss.sssZ\<close> that a backup file is written
  in. A \<open>Date\<close> reaches 8.64e15 ms to either side of the epoch.
\<close>

definition instant :: "timestamp \<Rightarrow> int \<Rightarrow> bool" where
  "instant ts t \<longleftrightarrow>
     \<bar>t\<bar> \<le> 8640000000000000 \<and> (ts = DateObj t \<or> ts = DateText (toISOString t))"

section \<open>Runs that may fail\<close>

text \<open>
  What a computation guarantees when it is started in a world that satisfies \<open>P\<close>: \<open>Q\<close>
  of its value and the world it leaves when it returns, \<open>E\<close> of what it throws and the
  world it leaves when it throws.
\<close>

definition ensures ::
  "(world \<Rightarrow> bool) \<Rightarrow> 'a io \<Rightarrow> ('a \<Rightarrow> world \<Rightarrow> bool) \<Rightarrow> (thrown \<Rightarrow> world \<Rightarrow> bool) \<Rightarrow> bool" where
  "ensures P m Q E \<longleftrightarrow>
     (\<forall>w. P w \<longrightarrow> (case m w of (Inr x, w') \<Rightarrow> Q x w' | (Inl e, w') \<Rightarrow> E e w'))"

text \<open>Properties of the world that do not look at the environment's script or the log of
  requests, at the remote files, at the two data tables.\<close>

definition blind :: "(world \<Rightarrow> bool) \<Rightarrow> bool" where
  "blind I \<longleftrightarrow> (\<forall>w es rq. I (w\<lparr>faults := es\<rparr>) = I w \<and> I (w\<lparr>requests := rq\<rparr>) = I w)"

definition drive_blind :: "(world \<Rightarrow> bool) \<Rightarrow> bool" where
  "drive_blind I \<longleftrightarrow>
     (\<forall>w f g. I (drive_update f w) = I w \<and> I (drive_next_id_update g w) = I w)"

definition tables_blind :: "(world \<Rightarrow> bool) \<Rightarrow> bool" where
  "tables_blind I \<longleftrightarrow>
     (\<forall>w f g. I (db_stats_update f w) = I w \<and> I (db_entries_update g w) = I w)"

text \<open>The settings are as they were in \<open>s0\<close>; and a result that is no error and, unless
  it is a success, comes with the watermark of \<open>s0\<close>.\<close>

definition unchanged :: "Settings list \<Rightarrow> world \<Rightarrow> bool" where
  "unchanged s0 w \<longleftrightarrow> db_settings w = s0"

definition quiet :: "Settings list \<Rightarrow> SyncResult \<Rightarrow> world \<Rightarrow> bool" where
  "quiet s0 r w \<longleftrightarrow>
     status r \<noteq> SyncError \<and>
     (status r \<noteq> Success \<longrightarrow>
        watermark w = (case s0 of [] \<Rightarrow> None | s # _ \<Rightarrow> lastSyncChecksum s))"

subsection \<open>Invariants of the merge and of the import\<close>


text \<open>A table all of whose rows carry the time \<open>now\<close> in both timestamps, and the stages of
  an import: the clock stands at \<open>now\<close>, and each table is either still empty or already
  filled with rows that passed the creating hook.\<close>

definition all_hooked :: "int \<Rightarrow> 'a row_scheme table \<Rightarrow> bool" where
  "all_hooked now t \<longleftrightarrow>
     (\<forall>r \<in> set (rows t). createdAt r = DateObj now \<and> updatedAt r = DateObj now)"

definition import_stage :: "int \<Rightarrow> bool \<Rightarrow> bool \<Rightarrow> world \<Rightarrow> bool" where
  "import_stage now stats_done entries_done w \<longleftrightarrow>
     clock w = now
     \<and> (if stats_done then all_hooked now (db_stats w) else rows (db_stats w) = [])
     \<and> (if entries_done then all_hooked now (db_entries w) else rows (db_entries w) = [])"

definition settings_blind :: "(world \<Rightarrow> bool) \<Rightarrow> bool" where
  "settings_blind I \<longleftrightarrow> (\<forall>w f. I (db_settings_update f w) = I w)"


section \<open>Example data\<close>

text \<open>A runtime that reads no date but those of the standard format.\<close>

definition standard_only :: "jstring \<Rightarrow> int option" where
  "standard_only s = None"

definition stat_mood :: stat where
  "stat_mood =
     \<lparr>id' = Some 1, createdAt = DateObj 1730619000123, updatedAt = DateObj 1730619000123,
      name = lit ''mood'', color = lit ''#e07a5f'', order = 0\<rparr>"

definition entry_five :: entry where
  "entry_five =
     \<lparr>id' = Some 1, createdAt = DateObj 1730619000123, updatedAt = DateObj 1730619000123,
      statId = 1, value = 5, date = lit ''2024-11-03''\<rparr>"

text \<open>A backup that another device uploaded: the same stat, the entry changed an hour later.\<close>

definition entry_cloud :: entry where
  "entry_cloud =
     \<lparr>id' = Some 1, createdAt = DateText (lit ''2024-11-03T07:30:00.123Z''),
      updatedAt = DateText (lit ''2024-11-03T08:30:00.000Z''),
      statId = 1, value = 7, date = lit ''2024-11-03''\<rparr>"

definition cloud_other :: BackupFile where
  "cloud_other =
     \<lparr>metadata =
        \<lparr>version = 1, exportedAt = lit ''2024-11-03T08:30:01.000Z'', appVersion = lit ''1.0.0'',
         entryCount = 1, statCount = 1, checksum = lit ''6975394c''\<rparr>,
      data =
        \<lparr>stats = [wire_row stat_mood],
         entries = [entry_cloud]\<rparr>\<rparr>"

definition settings_synced :: Settings where
  "settings_synced =
     \<lparr>settings_id = Some 1, daysToShow = 14, lastStatId = None, syncEnabled = Some True,
      lastSyncTime = Some (lit ''2024-11-03T07:31:00.000Z''),
      lastSyncChecksum = Some (lit ''3ebdc76f''), driveFileId = None,
      settings_createdAt = Some (DateObj 1730619000000),
      settings_updatedAt = Some (DateObj 1730619060000)\<rparr>"

text \<open>A device whose data is as it was at the last sync, while the remote file has changed.\<close>

definition world_remote_changed :: world where
  "world_remote_changed =
     \<lparr>db_stats = \<lparr>rows = [stat_mood], next_key = 2\<rparr>,
      db_entries = \<lparr>rows = [entry_five], next_key = 2\<rparr>,
      db_settings = [settings_synced],
      drive = [\<lparr>file_id = lit ''f1'', file_name = lit ''feels-backup.json'',
                modifiedTime = lit ''2024-11-03T08:30:01.500Z'', content = cloud_other\<rparr>],
      drive_next_id = 2, clock = 1730626200000, faults = [], requests = [],
      runtime = standard_only\<rparr>"

text \<open>The remote file as this device left it at the last sync, before the entry was added.\<close>

definition cloud_stale :: BackupFile where
  "cloud_stale =
     \<lparr>metadata =
        \<lparr>version = 1, exportedAt = lit ''2024-11-03T07:00:00.000Z'', appVersion = lit ''1.0.0'',
         entryCount = 0, statCount = 1, checksum = lit ''38ac6790''\<rparr>,
      data = \<lparr>stats = [wire_row stat_mood], entries = []\<rparr>\<rparr>"

definition world_local_changed :: world where
  "world_local_changed =
     \<lparr>db_stats = \<lparr>rows = [stat_mood], next_key = 2\<rparr>,
      db_entries = \<lparr>rows = [entry_five], next_key = 2\<rparr>,
      db_settings = [settings_synced\<lparr>lastSyncChecksum := Some (lit ''38ac6790'')\<rparr>],
      drive = [\<lparr>file_id = lit ''f1'', file_name = lit ''feels-backup.json'',
                modifiedTime = lit ''2024-11-03T07:00:00.500Z'', content = cloud_stale\<rparr>],
      drive_next_id = 2, clock = 1730626200000, faults = [], requests = [],
      runtime = standard_only\<rparr>"

text \<open>The remote file holds exactly the local data.\<close>

definition cloud_same :: BackupFile where
  "cloud_same =
     \<lparr>metadata =
        \<lparr>version = 1, exportedAt = lit ''2024-11-03T07:31:00.000Z'', appVersion = lit ''1.0.0'',
         entryCount = 1, statCount = 1, checksum = lit ''3ebdc76f''\<rparr>,
      data = \<lparr>stats = [wire_row stat_mood], entries = [wire_row entry_five]\<rparr>\<rparr>"

definition world_in_sync :: world where
  "world_in_sync =
     \<lparr>db_stats = \<lparr>rows = [stat_mood], next_key = 2\<rparr>,
      db_entries = \<lparr>rows = [entry_five], next_key = 2\<rparr>,
      db_settings = [settings_synced],
      drive = [\<lparr>file_id = lit ''f1'', file_name = lit ''feels-backup.json'',
                modifiedTime = lit ''2024-11-03T07:31:00.500Z'', content = cloud_same\<rparr>],
      drive_next_id = 2, clock = 1730626200000, faults = [], requests = [],
      runtime = standard_only\<rparr>"

definition entry_seven :: entry where
  "entry_seven =
     \<lparr>id' = Some 2, createdAt = DateObj 1730622600000, updatedAt = DateObj 1730622600000,
      statId = 1, value = 7, date = lit ''2024-11-03''\<rparr>"

text \<open>The same device on a day when the host refuses the upload.\<close>

definition world_upload_fails :: world where
  "world_upload_fails =
     world_local_changed\<lparr>faults := [Pass, Pass, Pass, Http 200, Http 200, Http 500]\<rparr>"

text \<open>Both sides changed: the device has a second entry, the remote file another value.\<close>

definition world_both_changed :: world where
  "world_both_changed =
     world_remote_changed\<lparr>db_entries := \<lparr>rows = [entry_five, entry_seven], next_key = 3\<rparr>\<rparr>"











section \<open>Runs without faults\<close>

lemma store_op_calm: "faults w = [] \<Longrightarrow> store_op w = (Inr (), w)"
  by (simp add: store_op_def await_def next_event_def return_def)

lemma fetch_calm:
  "faults w = [] \<Longrightarrow> fetch rq msg w = (Inr (), w\<lparr>requests := requests w @ [rq]\<rparr>)"
  by (simp add: fetch_def await_def next_event_def return_def modify_def)

lemma getSettings_calm:
  "faults w = [] \<Longrightarrow>
   getSettings w = (Inr (case db_settings w of [] \<Rightarrow> DEFAULT_SETTINGS | s # _ \<Rightarrow> s), w)"
  by (simp add: getSettings_def first_settings_def await_def store_op_calm get_def return_def
           split: list.splits)

lemma buildBackupFile_calm: "faults w = [] \<Longrightarrow> buildBackupFile w = (Inr (built w), w)"
  by (simp add: buildBackupFile_def toArray_def await_def store_op_calm get_def return_def
                built_def local_dataset_def)

lemma findBackupFile_calm:
  "faults w = [] \<Longrightarrow>
   findBackupFile tok w =
     (Inr (case find (\<lambda>f. file_name f = BACKUP_FILENAME) (drive w) of
             None \<Rightarrow> None | Some b \<Rightarrow> Some (file_id b, modifiedTime b)),
      w\<lparr>requests := requests w @ [ListFiles]\<rparr>)"
  by (simp add: findBackupFile_def listAppDataFiles_def await_def fetch_calm get_def return_def)

lemma downloadBackup_calm:
  "faults w = [] \<Longrightarrow>
   downloadBackup tok fid w =
     (case find (\<lambda>g. file_id g = fid) (drive w) of
        None \<Rightarrow> (Inl (Error (lit ''Failed to download backup: 404'')),
                 w\<lparr>requests := requests w @ [Download fid]\<rparr>)
      | Some g \<Rightarrow> (Inr (content g), w\<lparr>requests := requests w @ [Download fid]\<rparr>))"
  by (simp add: downloadBackup_def await_def fetch_calm host_get_def split: option.splits)

lemma updateSettings_calm:
  "faults w = [] \<Longrightarrow>
   updateSettings ups w =
     (Inr (),
      case db_settings w of
        [] \<Rightarrow> w
      | s # _ \<Rightarrow>
          (case settings_id s of
             None \<Rightarrow> w
           | Some k \<Rightarrow>
               if k \<noteq> 0 then
                 w\<lparr>db_settings :=
                     map (\<lambda>s. if settings_id s = Some k
                              then (foldl apply_update s ups)\<lparr>settings_updatedAt := Some (DateObj (clock w))\<rparr>
                              else s)
                         (db_settings w)\<rparr>
               else w))"
  by (simp add: updateSettings_def first_settings_def settings_update_def await_def store_op_calm
                get_def return_def modify_def split: list.splits option.splits)


lemma checksum_built: "checksum (metadata (built w)) = generateChecksum (local_dataset w)"
  by (simp add: built_def)

lemma data_built: "data (built w) = local_dataset w"
  by (simp add: built_def)

lemma getSettings_watermark:
  "lastSyncChecksum (case db_settings w of [] \<Rightarrow> DEFAULT_SETTINGS | s # _ \<Rightarrow> s) = watermark w"
  by (simp add: watermark_def DEFAULT_SETTINGS_def split: list.splits)

lemma remote_file_find:
  assumes "remote_file w = Some (fid, cloud)"
  obtains f g where "find (\<lambda>f. file_name f = BACKUP_FILENAME) (drive w) = Some f"
    and "file_id f = fid" and "find (\<lambda>g. file_id g = fid) (drive w) = Some g"
    and "content g = cloud"
  using assms by (auto simp: remote_file_def split: option.splits)


text \<open>A run without faults that finds a remote file, up to the decision.\<close>

lemma performSync_try_remote:
  assumes "faults w = []" and "remote_file w = Some (fid, cloud)"
  shows "performSync_try tok res w =
     (if checksum (metadata cloud) = generateChecksum (local_dataset w) then
        await (updateSettings [DriveFileId fid, LastSyncTime (toISOString (clock w))]) (\<lambda>_.
          return (result NoChanges ''Data is already in sync''))
      else if watermark w = Some (checksum (metadata cloud)) then
        await (uploadBackup tok (built w) (Some fid)) (\<lambda>_.
        await (updateSettings [LastSyncTime (toISOString (clock w)),
                               LastSyncChecksum (generateChecksum (local_dataset w))]) (\<lambda>_.
          return (result Success ''Backup updated in Google Drive'')))
      else
        (case res of
           None \<Rightarrow>
             return ((result Conflict ''Both local and cloud data have changed'')
                       \<lparr>cloudBackup := Some cloud, localBackup := Some (built w)\<rparr>)
         | Some resolution \<Rightarrow> resolveConflict tok fid (built w) cloud resolution))
       (w\<lparr>requests := requests w @ [ListFiles, Download fid]\<rparr>)"
proof -
  from assms(2) obtain f g where
    f: "find (\<lambda>f. file_name f = BACKUP_FILENAME) (drive w) = Some f" "file_id f = fid"
    and g: "find (\<lambda>g. file_id g = fid) (drive w) = Some g" "content g = cloud"
    by (rule remote_file_find)
  show ?thesis
    using assms(1) f g
    by (simp add: performSync_try_def await_def getSettings_calm buildBackupFile_calm
        findBackupFile_calm downloadBackup_calm get_def checksum_built getSettings_watermark)
qed





text \<open>The run that finds the remote checksum equal to the local one.\<close>

lemma performSync_in_sync_run:
  assumes "faults w = []"
    and "remote_file w = Some (fid, cloud)"
    and "checksum (metadata cloud) = generateChecksum (local_dataset w)"
  shows "performSync tok res w =
           (result NoChanges ''Data is already in sync'',
            snd (updateSettings [DriveFileId fid, LastSyncTime (toISOString (clock w))]
                   (w\<lparr>requests := requests w @ [ListFiles, Download fid]\<rparr>)))"
proof -
  let ?w1 = "w\<lparr>requests := requests w @ [ListFiles, Download fid]\<rparr>"
  have calm1: "faults ?w1 = []"
    using assms(1) by simp
  show ?thesis
    using assms
    by (simp add: performSync_def performSync_try_remote await_def updateSettings_calm [OF calm1]
        return_def)
qed

section \<open>Example data, evaluated\<close>

lemma checksum_mood_five:
  "generateChecksum \<lparr>stats = [stat_mood], entries = [entry_five]\<rparr> = lit ''3ebdc76f''"
  by code_simp

lemma checksum_cloud_other: "generateChecksum (data cloud_other) = lit ''6975394c''"
  by code_simp

lemma remote_file_remote_changed:
  "remote_file world_remote_changed = Some (lit ''f1'', cloud_other)"
  by (simp add: remote_file_def world_remote_changed_def BACKUP_FILENAME_def)


lemma remote_file_in_sync: "remote_file world_in_sync = Some (lit ''f1'', cloud_same)"
  by (simp add: remote_file_def world_in_sync_def BACKUP_FILENAME_def)

lemma lit_checksums_differ:
  "lit ''6975394c'' \<noteq> lit ''3ebdc76f''" "lit ''38ac6790'' \<noteq> lit ''3ebdc76f''"
  by (simp_all add: lit_def)

lemma checksum_order_example:
  "generateChecksum \<lparr>stats = [stat_mood], entries = [entry_five, entry_seven]\<rparr>
   \<noteq> generateChecksum \<lparr>stats = [stat_mood], entries = [entry_seven, entry_five]\<rparr>"
  by code_simp

lemma later_cloud_five:
  "later standard_only entry_cloud entry_five" "\<not> later standard_only entry_five entry_cloud"
  by code_simp+

lemma checksum_both_changed:
  "generateChecksum \<lparr>stats = [stat_mood], entries = [entry_five, entry_seven]\<rparr>
     \<noteq> lit ''6975394c''"
  by code_simp

lemma remote_file_both_changed:
  "remote_file world_both_changed = Some (lit ''f1'', cloud_other)"
  by (simp add: remote_file_def world_both_changed_def world_remote_changed_def BACKUP_FILENAME_def)

lemma checksum_restored:
  "generateChecksum \<lparr>stats = [creating_hook 1730626200000 (wire_row stat_mood)],
                     entries = [creating_hook 1730626200000 entry_cloud]\<rparr> = lit ''227b5313''"
  by code_simp

lemma lit_checksums_differ_restored: "lit ''227b5313'' \<noteq> lit ''6975394c''"
  by (simp add: lit_def)

lemma rehydrate_entry_cloud:
  "rehydrate standard_only entry_cloud =
     entry_cloud\<lparr>createdAt := DateObj 1730619000123, updatedAt := DateObj 1730622600000\<rparr>"
  by code_simp




section \<open>The merge\<close>






lemma has_id_eq: "has_id a \<Longrightarrow> has_id b \<Longrightarrow> id' a = id' b \<longleftrightarrow> key_of a = key_of b"
  by (auto simp: has_id_def key_of_def split: option.splits)


























section \<open>Invariants of runs that may fail\<close>

lemma ensuresI:
  "(\<And>w x w'. P w \<Longrightarrow> m w = (Inr x, w') \<Longrightarrow> Q x w')
   \<Longrightarrow> (\<And>w e w'. P w \<Longrightarrow> m w = (Inl e, w') \<Longrightarrow> E e w') \<Longrightarrow> ensures P m Q E"
  by (auto simp: ensures_def split: sum.splits prod.splits)

lemma ensures_Inr: "ensures P m Q E \<Longrightarrow> P w \<Longrightarrow> m w = (Inr x, w') \<Longrightarrow> Q x w'"
  by (auto simp: ensures_def)

lemma ensures_Inl: "ensures P m Q E \<Longrightarrow> P w \<Longrightarrow> m w = (Inl e, w') \<Longrightarrow> E e w'"
  by (auto simp: ensures_def)

lemma ensures_await:
  assumes "ensures P m R E" and "\<And>x. ensures (R x) (f x) Q E"
  shows "ensures P (await m f) Q E"
proof (rule ensuresI)
  fix w x w'
  assume "P w" and run: "await m f w = (Inr x, w')"
  then obtain y w1 where m: "m w = (Inr y, w1)" and f: "f y w1 = (Inr x, w')"
    by (auto simp: await_def split: sum.splits prod.splits)
  from ensures_Inr [OF assms(1) \<open>P w\<close> m] have "R y w1" .
  from ensures_Inr [OF assms(2) this f] show "Q x w'" .
next
  fix w e w'
  assume "P w" and run: "await m f w = (Inl e, w')"
  then consider "m w = (Inl e, w')" | y w1 where "m w = (Inr y, w1)" "f y w1 = (Inl e, w')"
    by (auto simp: await_def split: sum.splits prod.splits)
  then show "E e w'"
  proof cases
    case 1
    then show ?thesis using assms(1) \<open>P w\<close> by (auto dest: ensures_Inl)
  next
    case 2
    from ensures_Inr [OF assms(1) \<open>P w\<close> 2(1)] have "R y w1" .
    from ensures_Inl [OF assms(2) this 2(2)] show ?thesis .
  qed
qed

lemma kept_await:
  "ensures I m (\<lambda>_. I) E \<Longrightarrow> (\<And>x. ensures I (f x) Q E) \<Longrightarrow> ensures I (await m f) Q E"
  by (rule ensures_await)

lemma ensures_weaken:
  assumes "ensures P m Q E"
    and "\<And>w. P' w \<Longrightarrow> P w" and "\<And>x w. Q x w \<Longrightarrow> Q' x w" and "\<And>e w. E e w \<Longrightarrow> E' e w"
  shows "ensures P' m Q' E'"
proof (rule ensuresI)
  fix w x w'
  assume "P' w" and "m w = (Inr x, w')"
  then show "Q' x w'"
    using assms(2,3) ensures_Inr [OF assms(1)] by blast
next
  fix w e w'
  assume "P' w" and "m w = (Inl e, w')"
  then show "E' e w'"
    using assms(2,4) ensures_Inl [OF assms(1)] by blast
qed

lemma ensures_return: "(\<And>w. P w \<Longrightarrow> Q x w) \<Longrightarrow> ensures P (return x) Q E"
  by (simp add: ensures_def return_def)

lemma ensures_throw: "(\<And>w. P w \<Longrightarrow> E e w) \<Longrightarrow> ensures P (throw e) Q E"
  by (simp add: ensures_def throw_def)

lemma ensures_get: "(\<And>w. P w \<Longrightarrow> Q (f w) w) \<Longrightarrow> ensures P (get f) Q E"
  by (simp add: ensures_def get_def)

text \<open>An invariant that the environment's bookkeeping does not touch holds through every
  call that changes nothing else, however the call ends.\<close>

lemma kept_next_event: "blind I \<Longrightarrow> ensures I next_event (\<lambda>_. I) (\<lambda>_. I)"
  by (auto simp: ensures_def next_event_def blind_def split: list.splits)

lemma kept_store_op: "blind I \<Longrightarrow> ensures I store_op (\<lambda>_. I) (\<lambda>_. I)"
  unfolding store_op_def
  by (rule ensures_await [OF kept_next_event])
     (auto intro!: ensures_return ensures_throw split: event.splits)

lemma kept_fetch: "blind I \<Longrightarrow> ensures I (fetch rq msg) (\<lambda>_. I) (\<lambda>_. I)"
  unfolding fetch_def
  apply (rule ensures_await [where R = "\<lambda>_. I"])
   apply (simp add: ensures_def modify_def blind_def)
  apply (rule ensures_await [OF kept_next_event], assumption)
  apply (auto intro!: ensures_return ensures_throw split: event.splits)
  done

lemma kept_toArray: "blind I \<Longrightarrow> ensures I (toArray tbl) (\<lambda>_. I) (\<lambda>_. I)"
  unfolding toArray_def
  by (rule ensures_await [OF kept_store_op]) (auto intro!: ensures_get)

lemma kept_first_settings: "blind I \<Longrightarrow> ensures I first_settings (\<lambda>_. I) (\<lambda>_. I)"
  unfolding first_settings_def
  by (rule ensures_await [OF kept_store_op]) (auto intro!: ensures_get)

lemma kept_getSettings: "blind I \<Longrightarrow> ensures I getSettings (\<lambda>_. I) (\<lambda>_. I)"
  unfolding getSettings_def
  by (rule ensures_await [OF kept_first_settings]) (auto intro!: ensures_return)

lemma kept_buildBackupFile: "blind I \<Longrightarrow> ensures I buildBackupFile (\<lambda>_. I) (\<lambda>_. I)"
  unfolding buildBackupFile_def
  by (intro ensures_await [OF kept_toArray] ensures_await [where R = "\<lambda>_. I"] ensures_get
        ensures_return) auto

lemma kept_findBackupFile: "blind I \<Longrightarrow> ensures I (findBackupFile tok) (\<lambda>_. I) (\<lambda>_. I)"
  unfolding findBackupFile_def listAppDataFiles_def
  by (intro ensures_await [OF kept_fetch] ensures_await [where R = "\<lambda>_. I"] ensures_get
        ensures_return) auto

lemma kept_downloadBackup: "blind I \<Longrightarrow> ensures I (downloadBackup tok fid) (\<lambda>_. I) (\<lambda>_. I)"
  unfolding downloadBackup_def
  by (rule ensures_await [OF kept_fetch])
     (auto simp: ensures_def host_get_def split: option.splits)

lemma kept_uploadBackup:
  "blind I \<Longrightarrow> drive_blind I \<Longrightarrow> ensures I (uploadBackup tok b target) (\<lambda>_. I) (\<lambda>_. I)"
  unfolding uploadBackup_def
  by (rule ensures_await [OF kept_fetch])
     (auto simp: ensures_def host_patch_def host_post_def drive_blind_def Let_def
           split: option.splits)

lemma kept_clear_stats:
  "blind I \<Longrightarrow> tables_blind I \<Longrightarrow> ensures I (clear db_stats_update) (\<lambda>_. I) (\<lambda>_. I)"
  unfolding clear_def
  by (rule ensures_await [OF kept_store_op]) (simp_all add: ensures_def modify_def tables_blind_def)

lemma kept_clear_entries:
  "blind I \<Longrightarrow> tables_blind I \<Longrightarrow> ensures I (clear db_entries_update) (\<lambda>_. I) (\<lambda>_. I)"
  unfolding clear_def
  by (rule ensures_await [OF kept_store_op]) (simp_all add: ensures_def modify_def tables_blind_def)

lemma kept_bulkAdd_stats:
  "blind I \<Longrightarrow> tables_blind I \<Longrightarrow>
   ensures I (bulkAdd db_stats db_stats_update objs) (\<lambda>_. I) (\<lambda>_. I)"
  unfolding bulkAdd_def
  by (rule ensures_await [OF kept_store_op])
     (simp_all add: ensures_def tables_blind_def split: sum.splits)

lemma kept_bulkAdd_entries:
  "blind I \<Longrightarrow> tables_blind I \<Longrightarrow>
   ensures I (bulkAdd db_entries db_entries_update objs) (\<lambda>_. I) (\<lambda>_. I)"
  unfolding bulkAdd_def
  by (rule ensures_await [OF kept_store_op])
     (simp_all add: ensures_def tables_blind_def split: sum.splits)

lemma kept_transaction:
  assumes "blind I" and "tables_blind I" and "ensures I body (\<lambda>_. I) (\<lambda>_. I)"
  shows "ensures I (transaction body) (\<lambda>_. I) (\<lambda>_. I)"
proof -
  have "ensures I (await body (\<lambda>x. await store_op (\<lambda>_. return x))) (\<lambda>_. I) (\<lambda>_. I)"
    by (intro ensures_await [OF assms(3)] ensures_await [OF kept_store_op] assms(1) ensures_return)
  then show ?thesis
    using assms(2)
    by (auto simp: ensures_def transaction_def tables_blind_def split: sum.splits prod.splits)
qed

lemma kept_get: "ensures I (get f) (\<lambda>_. I) E"
  by (simp add: ensures_def get_def)

lemma kept_importData:
  assumes "blind I" and "tables_blind I"
  shows "ensures I (importData jt) (\<lambda>_. I) (\<lambda>_. I)"
proof (cases jt)
  case Malformed
  then show ?thesis
    unfolding importData_def
    by (auto intro!: ensures_await [OF kept_get] ensures_throw)
next
  case Null_text
  then show ?thesis
    unfolding importData_def
    by (auto intro!: ensures_await [OF kept_get] kept_transaction kept_await kept_clear_stats
          kept_clear_entries ensures_throw assms)
next
  case (Object_text doc)
  have "ensures I (case m_stats doc of None \<Rightarrow> return ()
          | Some ss \<Rightarrow> if ss \<noteq> [] then bulkAdd db_stats db_stats_update (map (rehydrate parse) ss) else return ())
          (\<lambda>_. I) (\<lambda>_. I)" for parse
    by (auto intro!: kept_bulkAdd_stats ensures_return assms split: option.splits)
  moreover have "ensures I (case m_entries doc of None \<Rightarrow> return ()
          | Some es \<Rightarrow> if es \<noteq> [] then bulkAdd db_entries db_entries_update (map (rehydrate parse) es) else return ())
          (\<lambda>_. I) (\<lambda>_. I)" for parse
    by (auto intro!: kept_bulkAdd_entries ensures_return assms split: option.splits)
  ultimately show ?thesis
    unfolding importData_def Object_text
    by (auto intro!: ensures_await [OF kept_get] kept_transaction kept_await kept_clear_stats
          kept_clear_entries assms)
qed

lemma unchanged_blind:
  "blind (unchanged s0)" "drive_blind (unchanged s0)" "tables_blind (unchanged s0)"
  by (simp_all add: blind_def drive_blind_def tables_blind_def unchanged_def)

lemma settings_update_throws:
  "ensures (unchanged s0) (settings_update k ups) (\<lambda>_ _. True) (\<lambda>_. unchanged s0)"
  unfolding settings_update_def
  by (rule kept_await [OF kept_store_op [OF unchanged_blind(1)]])
     (simp add: ensures_def modify_def)

lemma updateSettings_throws:
  "ensures (unchanged s0) (updateSettings ups) (\<lambda>_ _. True) (\<lambda>_. unchanged s0)"
  unfolding updateSettings_def
  by (rule kept_await [OF kept_first_settings [OF unchanged_blind(1)]])
     (auto intro!: ensures_return settings_update_throws split: option.splits)

lemma settings_update_time:
  "ensures (unchanged s0) (settings_update k [DriveFileId f, LastSyncTime t])
     (\<lambda>_ w. watermark w = (case s0 of [] \<Rightarrow> None | s # _ \<Rightarrow> lastSyncChecksum s))
     (\<lambda>_. unchanged s0)"
  unfolding settings_update_def
  by (rule kept_await [OF kept_store_op [OF unchanged_blind(1)]])
     (auto simp: ensures_def modify_def unchanged_def watermark_def split: list.splits)

lemma unchanged_watermark:
  "unchanged s0 w \<Longrightarrow> watermark w = (case s0 of [] \<Rightarrow> None | s # _ \<Rightarrow> lastSyncChecksum s)"
  by (simp add: unchanged_def watermark_def)

lemma updateSettings_time:
  "ensures (unchanged s0) (updateSettings [DriveFileId f, LastSyncTime t])
     (\<lambda>_ w. watermark w = (case s0 of [] \<Rightarrow> None | s # _ \<Rightarrow> lastSyncChecksum s))
     (\<lambda>_. unchanged s0)"
  unfolding updateSettings_def
  by (rule kept_await [OF kept_first_settings [OF unchanged_blind(1)]])
     (auto intro!: ensures_return settings_update_time unchanged_watermark split: option.splits)

lemma ensures_if:
  "ensures P a Q E \<Longrightarrow> ensures P b Q E \<Longrightarrow> ensures P (if c then a else b) Q E"
  by simp

lemma ensures_case_option:
  "ensures P a Q E \<Longrightarrow> (\<And>x. ensures P (b x) Q E)
   \<Longrightarrow> ensures P (case opt of None \<Rightarrow> a | Some x \<Rightarrow> b x) Q E"
  by (simp split: option.splits)

lemma ensures_case_prod:
  "(\<And>x y. ensures P (f x y) Q E) \<Longrightarrow> ensures P (case p of (x, y) \<Rightarrow> f x y) Q E"
  by (simp split: prod.splits)

lemma time_then_no_changes:
  "ensures (unchanged s0)
     (await (updateSettings [DriveFileId f, LastSyncTime t])
            (\<lambda>_. return (result NoChanges msg)))
     (quiet s0) (\<lambda>_. unchanged s0)"
  by (rule ensures_await [OF updateSettings_time])
     (simp add: ensures_def return_def quiet_def result_def)

lemma write_then_success:
  "ensures (unchanged s0) (await (updateSettings ups) (\<lambda>_. return (result Success msg)))
     (quiet s0) (\<lambda>_. unchanged s0)"
  by (rule ensures_await [OF updateSettings_throws])
     (simp add: ensures_def return_def quiet_def result_def)

lemma resolveConflict_quiet:
  "ensures (unchanged s0) (resolveConflict tok fid local cloud resolution)
     (quiet s0) (\<lambda>_. unchanged s0)"
proof (cases resolution)
  case KeepLocal
  then show ?thesis
    unfolding resolveConflict_def
    by (auto intro!: kept_await kept_uploadBackup kept_get write_then_success unchanged_blind)
next
  case UseCloud
  then show ?thesis
    unfolding resolveConflict_def
    by (auto intro!: kept_await kept_importData kept_get write_then_success unchanged_blind)
next
  case Merge
  then show ?thesis
    unfolding resolveConflict_def Let_def
    by (auto intro!: kept_await kept_importData kept_get kept_buildBackupFile kept_uploadBackup
          write_then_success unchanged_blind)
qed

lemma performSync_try_quiet:
  "ensures (unchanged s0) (performSync_try tok res) (quiet s0) (\<lambda>_. unchanged s0)"
  unfolding performSync_try_def
  by (intro write_then_success time_then_no_changes resolveConflict_quiet
        ensures_if ensures_case_option ensures_case_prod
        kept_await kept_getSettings kept_buildBackupFile kept_findBackupFile kept_get
        kept_uploadBackup kept_downloadBackup unchanged_blind ensures_return)
     (simp add: quiet_def result_def unchanged_watermark)

subsection \<open>The import\<close>

lemma set_insert_row: "set (insert_row x xs) = insert x (set xs)"
  by (induction xs) auto

lemma hook_id: "id' (creating_hook now obj) = id' obj"
  by (simp add: creating_hook_def)

lemma same_id: "id' r = Some k \<Longrightarrow> r\<lparr>id' := Some k\<rparr> = r"
  by (cases r) simp

text \<open>Every row that \<open>add_rows\<close> stores has passed the hook.\<close>

lemma add_row_rows:
  assumes "add_row now obj tbl = Inr tbl'"
  shows "\<exists>k. set (rows tbl') = insert ((creating_hook now obj)\<lparr>id' := Some k\<rparr>) (set (rows tbl))
             \<and> (id' obj \<noteq> None \<longrightarrow> id' obj = Some k)"
  using assms
  by (auto simp: add_row_def Let_def set_insert_row hook_id split: if_splits option.splits)

lemma add_rows_hooked:
  assumes "add_rows now objs tbl = Inr tbl'"
  shows "\<forall>r \<in> set (rows tbl') - set (rows tbl).
           \<exists>obj \<in> set objs. \<exists>k. r = (creating_hook now obj)\<lparr>id' := Some k\<rparr>
              \<and> (id' obj \<noteq> None \<longrightarrow> id' obj = Some k)"
  using assms
proof (induction objs arbitrary: tbl)
  case Nil
  then show ?case by simp
next
  case (Cons obj objs)
  from Cons.prems obtain t1 where t1: "add_row now obj tbl = Inr t1"
    and rest: "add_rows now objs t1 = Inr tbl'"
    by (auto split: sum.splits)
  from add_row_rows [OF t1] obtain k where
    k: "set (rows t1) = insert ((creating_hook now obj)\<lparr>id' := Some k\<rparr>) (set (rows tbl))"
      "id' obj \<noteq> None \<longrightarrow> id' obj = Some k"
    by auto
  show ?case
  proof
    fix r
    assume r: "r \<in> set (rows tbl') - set (rows tbl)"
    show "\<exists>obj \<in> set (obj # objs). \<exists>k. r = (creating_hook now obj)\<lparr>id' := Some k\<rparr>
             \<and> (id' obj \<noteq> None \<longrightarrow> id' obj = Some k)"
    proof (cases "r \<in> set (rows t1)")
      case True
      then have "r = (creating_hook now obj)\<lparr>id' := Some k\<rparr>"
        using r k(1) by auto
      then show ?thesis using k(2) by auto
    next
      case False
      then have "r \<in> set (rows tbl') - set (rows t1)"
        using r by simp
      with Cons.IH [OF rest] show ?thesis by auto
    qed
  qed
qed

lemma hooked_times:
  "createdAt ((creating_hook now obj)\<lparr>id' := k\<rparr>) = DateObj now"
  "updatedAt ((creating_hook now obj)\<lparr>id' := k\<rparr>) = DateObj now"
  by (simp_all add: creating_hook_def)

text \<open>Adding records that all carry an identifier, no two the same, none in the table.\<close>

lemma add_rows_keyed:
  assumes "\<forall>c \<in> set objs. id' c \<noteq> None" and "distinct (map id' objs)"
    and "\<forall>c \<in> set objs. key_of c \<notin> key_of ` set (rows tbl)"
  shows "\<exists>tbl'. add_rows now objs tbl = Inr tbl'
           \<and> set (rows tbl') = set (rows tbl) \<union> creating_hook now ` set objs"
  using assms
proof (induction objs arbitrary: tbl)
  case Nil
  then show ?case by simp
next
  case (Cons obj objs)
  from Cons.prems(1) obtain k where k: "id' obj = Some k"
    by auto
  then have key: "key_of obj = k"
    by (simp add: key_of_def)
  let ?h = "creating_hook now obj"
  let ?t1 = "\<lparr>rows = insert_row ?h (rows tbl), next_key = max (next_key tbl) (k + 1)\<rparr>"
  have hk: "?h\<lparr>id' := Some k\<rparr> = ?h"
    using k by (simp add: same_id hook_id)
  have fresh: "k \<notin> key_of ` set (rows tbl)"
    using Cons.prems(3) key by auto
  then have t1: "add_row now obj tbl = Inr ?t1"
    using k by (simp add: add_row_def Let_def hook_id hk)
  have keyh: "key_of ?h = k"
    using k by (simp add: key_of_def hook_id)
  have others: "\<forall>c \<in> set objs. key_of c \<noteq> k"
  proof
    fix c assume c: "c \<in> set objs"
    then have "id' c \<noteq> id' obj"
      using Cons.prems(2) by (auto simp: image_iff)
    moreover obtain j where "id' c = Some j"
      using Cons.prems(1) c by auto
    ultimately show "key_of c \<noteq> k"
      using k by (simp add: key_of_def)
  qed
  have "\<forall>c \<in> set objs. key_of c \<notin> key_of ` set (rows ?t1)"
    using Cons.prems(3) others keyh by (auto simp: set_insert_row)
  with Cons.IH [of ?t1] Cons.prems(1,2) obtain tbl' where
    "add_rows now objs ?t1 = Inr tbl'"
    "set (rows tbl') = set (rows ?t1) \<union> creating_hook now ` set objs"
    by auto
  then show ?case
    using t1 by (auto simp: set_insert_row)
qed

lemma add_rows_all_hooked:
  assumes "add_rows now objs tbl = Inr tbl'" and "rows tbl = []"
  shows "all_hooked now tbl'"
  using add_rows_hooked [OF assms(1)] assms(2)
  by (auto simp: all_hooked_def hooked_times)

lemma all_hooked_empty: "rows t = [] \<Longrightarrow> all_hooked now t"
  by (simp add: all_hooked_def)

lemma ensures_anyhow: "ensures P m Q E \<Longrightarrow> ensures P m Q (\<lambda>_ _. True)"
  by (auto simp: ensures_def split: sum.splits prod.splits)

lemma blind_clock: "blind (\<lambda>w. clock w = now)"
  by (simp add: blind_def)

lemma blind_import_stage: "blind (import_stage now a b)"
  by (simp add: blind_def import_stage_def)

lemma clear_stats_stage:
  "ensures (\<lambda>w. clock w = now) (clear db_stats_update)
     (\<lambda>_ w. clock w = now \<and> rows (db_stats w) = []) (\<lambda>_ _. True)"
  unfolding clear_def
  by (rule ensures_await [OF ensures_anyhow [OF kept_store_op [OF blind_clock]]])
     (simp add: ensures_def modify_def)

lemma clear_entries_stage:
  "ensures (\<lambda>w. clock w = now \<and> rows (db_stats w) = []) (clear db_entries_update)
     (\<lambda>_. import_stage now False False) (\<lambda>_ _. True)"
  unfolding clear_def
  by (rule ensures_await [OF ensures_anyhow [OF kept_store_op]])
     (simp_all add: ensures_def modify_def blind_def import_stage_def)

lemma bulkAdd_stats_stage:
  "ensures (import_stage now False False) (bulkAdd db_stats db_stats_update objs)
     (\<lambda>_. import_stage now True False) (\<lambda>_ _. True)"
  unfolding bulkAdd_def
  by (rule ensures_await [OF ensures_anyhow [OF kept_store_op [OF blind_import_stage]]])
     (auto simp: ensures_def import_stage_def add_rows_all_hooked split: sum.splits)

lemma bulkAdd_entries_stage:
  "ensures (import_stage now True False) (bulkAdd db_entries db_entries_update objs)
     (\<lambda>_. import_stage now True True) (\<lambda>_ _. True)"
  unfolding bulkAdd_def
  by (rule ensures_await [OF ensures_anyhow [OF kept_store_op [OF blind_import_stage]]])
     (auto simp: ensures_def import_stage_def add_rows_all_hooked split: sum.splits)

lemma skip_stats_stage:
  "ensures (import_stage now False False) (return ()) (\<lambda>_. import_stage now True False) (\<lambda>_ _. True)"
  by (simp add: ensures_def return_def import_stage_def all_hooked_empty)

lemma skip_entries_stage:
  "ensures (import_stage now True False) (return ()) (\<lambda>_. import_stage now True True) (\<lambda>_ _. True)"
  by (simp add: ensures_def return_def import_stage_def all_hooked_empty)

lemma ensures_transaction:
  assumes "ensures P (await body (\<lambda>x. await store_op (\<lambda>_. return x))) Q (\<lambda>_ _. True)"
  shows "ensures P (transaction body) Q (\<lambda>_ _. True)"
  using assms
  by (auto simp: ensures_def transaction_def split: sum.splits prod.splits)

lemma importData_stage:
  "ensures (\<lambda>w. clock w = now) (importData jt) (\<lambda>_. import_stage now True True) (\<lambda>_ _. True)"
proof -
  have commit: "ensures (import_stage now True True) (await store_op (\<lambda>_. return x))
                  (\<lambda>_. import_stage now True True) (\<lambda>_ _. True)" for x :: unit
    by (rule ensures_await [OF ensures_anyhow [OF kept_store_op [OF blind_import_stage]]])
       (simp add: ensures_return)
  show ?thesis
  proof (cases jt)
    case Malformed
    then show ?thesis
      unfolding importData_def
      by (auto intro!: ensures_await [OF kept_get] ensures_throw)
  next
    case Null_text
    have "ensures (\<lambda>w. clock w = now)
            (await (clear db_stats_update) (\<lambda>_. await (clear db_entries_update) (\<lambda>_.
               throw (Error (lit ''TypeError'')))))
            (\<lambda>_. import_stage now True True) (\<lambda>_ _. True)"
      by (intro ensures_await [OF clear_stats_stage] ensures_await [OF clear_entries_stage]
            ensures_throw) simp
    then show ?thesis
      unfolding importData_def Null_text
      by (auto intro!: ensures_await [OF kept_get] ensures_transaction ensures_await [OF _ commit])
  next
    case (Object_text doc)
    have stats_case: "ensures (import_stage now False False)
            (case m_stats doc of None \<Rightarrow> return ()
             | Some ss \<Rightarrow> if ss \<noteq> [] then bulkAdd db_stats db_stats_update (map (rehydrate parse) ss)
                          else return ())
            (\<lambda>_. import_stage now True False) (\<lambda>_ _. True)" for parse
      by (simp add: bulkAdd_stats_stage skip_stats_stage split: option.splits)
    have entries_case: "ensures (import_stage now True False)
            (case m_entries doc of None \<Rightarrow> return ()
             | Some es \<Rightarrow> if es \<noteq> [] then bulkAdd db_entries db_entries_update (map (rehydrate parse) es)
                          else return ())
            (\<lambda>_. import_stage now True True) (\<lambda>_ _. True)" for parse
      by (simp add: bulkAdd_entries_stage skip_entries_stage split: option.splits)
    have "ensures (\<lambda>w. clock w = now)
            (await (clear db_stats_update) (\<lambda>_. await (clear db_entries_update) (\<lambda>_.
               await (case m_stats doc of None \<Rightarrow> return ()
                      | Some ss \<Rightarrow> if ss \<noteq> [] then bulkAdd db_stats db_stats_update (map (rehydrate parse) ss)
                                   else return ()) (\<lambda>_.
               case m_entries doc of None \<Rightarrow> return ()
               | Some es \<Rightarrow> if es \<noteq> [] then bulkAdd db_entries db_entries_update (map (rehydrate parse) es)
                            else return ()))))
            (\<lambda>_. import_stage now True True) (\<lambda>_ _. True)" for parse
      by (intro ensures_await [OF clear_stats_stage] ensures_await [OF clear_entries_stage]
            ensures_await [OF stats_case] entries_case)
    then show ?thesis
      unfolding importData_def Object_text
      by (auto intro!: ensures_await [OF kept_get] ensures_transaction ensures_await [OF _ commit])
  qed
qed

lemma importData_hooks:
  assumes "importData jt w = (Inr x, w')"
  shows "all_hooked (clock w) (db_stats w') \<and> all_hooked (clock w) (db_entries w')
         \<and> clock w' = clock w"
  using ensures_Inr [OF importData_stage [of "clock w" jt] _ assms]
  by (simp add: import_stage_def)

lemma clear_stats_calm:
  "faults w = [] \<Longrightarrow>
   clear db_stats_update w = (Inr (), w\<lparr>db_stats := (db_stats w)\<lparr>rows := []\<rparr>\<rparr>)"
  by (simp add: clear_def await_def store_op_calm modify_def)

lemma clear_entries_calm:
  "faults w = [] \<Longrightarrow>
   clear db_entries_update w = (Inr (), w\<lparr>db_entries := (db_entries w)\<lparr>rows := []\<rparr>\<rparr>)"
  by (simp add: clear_def await_def store_op_calm modify_def)

lemma bulkAdd_stats_calm:
  "faults w = [] \<Longrightarrow>
   bulkAdd db_stats db_stats_update objs w =
     (case add_rows (clock w) objs (db_stats w) of
        Inl e \<Rightarrow> (Inl e, w) | Inr t \<Rightarrow> (Inr (), w\<lparr>db_stats := t\<rparr>))"
  by (simp add: bulkAdd_def await_def store_op_calm split: sum.splits)

lemma bulkAdd_entries_calm:
  "faults w = [] \<Longrightarrow>
   bulkAdd db_entries db_entries_update objs w =
     (case add_rows (clock w) objs (db_entries w) of
        Inl e \<Rightarrow> (Inl e, w) | Inr t \<Rightarrow> (Inr (), w\<lparr>db_entries := t\<rparr>))"
  by (simp add: bulkAdd_def await_def store_op_calm split: sum.splits)

text \<open>The import of an exported text in a run without faults: both tables are cleared and
  filled, or, when a key clashes, left as they were.\<close>

lemma importData_calm:
  assumes "faults w = []"
  shows "importData (stringify_export ss es at) w =
     (case add_rows (clock w) (map (rehydrate (runtime w)) (map wire_row ss)) ((db_stats w)\<lparr>rows := []\<rparr>) of
        Inl e \<Rightarrow> (Inl e, w)
      | Inr t1 \<Rightarrow>
          (case add_rows (clock w) (map (rehydrate (runtime w)) (map wire_row es)) ((db_entries w)\<lparr>rows := []\<rparr>) of
             Inl e \<Rightarrow> (Inl e, w)
           | Inr t2 \<Rightarrow> (Inr (), w\<lparr>db_stats := t1, db_entries := t2\<rparr>)))"
proof -
  let ?w1 = "w\<lparr>db_stats := (db_stats w)\<lparr>rows := []\<rparr>\<rparr>"
  let ?w2 = "?w1\<lparr>db_entries := (db_entries w)\<lparr>rows := []\<rparr>\<rparr>"
  have c1: "faults ?w1 = []" and c2: "faults ?w2 = []"
    using assms by simp_all
  have same: "w\<lparr>db_stats := db_stats w, db_entries := db_entries w\<rparr> = w"
    by simp
  show ?thesis
    using assms
    by (cases "ss = []"; cases "es = []")
       (auto simp: importData_def stringify_export_def transaction_def await_def get_def
          clear_stats_calm clear_entries_calm [OF c1] bulkAdd_stats_calm bulkAdd_entries_calm
          store_op_calm return_def same
          split: sum.splits)
qed

lemma hook_rehydrate_wire: "creating_hook now (rehydrate parse (wire_row c)) = creating_hook now c"
  by (simp add: creating_hook_def rehydrate_def wire_row_def)

lemma id_rehydrate_wire: "id' (rehydrate parse (wire_row c)) = id' c"
  by (simp add: rehydrate_def wire_row_def)

lemma key_rehydrate_wire: "key_of (rehydrate parse (wire_row c)) = key_of c"
  by (simp add: key_of_def id_rehydrate_wire)

lemma add_rows_import:
  assumes "\<forall>c \<in> set cs. id' c \<noteq> None" and "distinct (map id' cs)" and "rows tbl = []"
  shows "\<exists>tbl'. add_rows now (map (rehydrate parse) (map wire_row cs)) tbl = Inr tbl'
           \<and> set (rows tbl') = creating_hook now ` set cs"
proof -
  have "id' \<circ> (rehydrate parse \<circ> wire_row) = (id' :: 'a row_scheme \<Rightarrow> nat option)"
    by (rule ext) (simp add: id_rehydrate_wire)
  then have d: "distinct (map id' (map (rehydrate parse) (map wire_row cs)))"
    using assms(2) by simp
  have "\<forall>c \<in> set (map (rehydrate parse) (map wire_row cs)). id' c \<noteq> None"
    using assms(1) by (auto simp: id_rehydrate_wire)
  from add_rows_keyed [OF this d, of tbl now] assms(3)
  obtain tbl' where "add_rows now (map (rehydrate parse) (map wire_row cs)) tbl = Inr tbl'"
    "set (rows tbl') = creating_hook now ` set (map (rehydrate parse) (map wire_row cs))"
    by auto
  moreover have "creating_hook now ` set (map (rehydrate parse) (map wire_row cs)) = creating_hook now ` set cs"
    by (auto simp: hook_rehydrate_wire image_iff)
  ultimately show ?thesis by auto
qed



lemma kept_updateSettings:
  assumes "blind I" and "settings_blind I"
  shows "ensures I (updateSettings ups) (\<lambda>_. I) (\<lambda>_. I)"
proof -
  have "ensures I (settings_update k ups) (\<lambda>_. I) (\<lambda>_. I)" for k
    unfolding settings_update_def
    using assms(2)
    by (intro kept_await kept_store_op assms(1))
       (simp add: ensures_def modify_def settings_blind_def)
  then show ?thesis
    unfolding updateSettings_def
    by (intro kept_await kept_first_settings assms(1))
       (auto intro!: ensures_return split: option.splits)
qed

lemma import_stage_blind:
  "drive_blind (import_stage now a b)" "settings_blind (import_stage now a b)"
  by (simp_all add: drive_blind_def settings_blind_def import_stage_def)

text \<open>After a resolution that imports, every local record carries the time of the import.\<close>

lemma resolveConflict_stage:
  assumes "resolution \<noteq> KeepLocal"
  shows "ensures (\<lambda>w. clock w = now) (resolveConflict tok fid local cloud resolution)
           (\<lambda>_. import_stage now True True) (\<lambda>_ _. True)"
proof -
  note kept = ensures_anyhow [OF kept_updateSettings [OF blind_import_stage import_stage_blind(2)]]
    ensures_anyhow [OF kept_buildBackupFile [OF blind_import_stage]]
    ensures_anyhow [OF kept_uploadBackup [OF blind_import_stage import_stage_blind(1)]]
  show ?thesis
  proof (cases resolution)
    case KeepLocal
    then show ?thesis using assms by simp
  next
    case UseCloud
    then show ?thesis
      unfolding resolveConflict_def
      by (auto intro!: ensures_await [OF importData_stage] kept_await kept_get kept ensures_return)
  next
    case Merge
    have clk: "ensures (\<lambda>w. clock w = now) (get clock) (\<lambda>_ w. clock w = now) (\<lambda>_ _. True)"
      by (simp add: ensures_def get_def)
    have rest: "ensures (import_stage now True True)
                  (await buildBackupFile (\<lambda>newBackup.
                   await (uploadBackup tok newBackup (Some fid)) (\<lambda>_.
                   await (updateSettings (ups newBackup)) (\<lambda>_. return r))))
                  (\<lambda>_. import_stage now True True) (\<lambda>_ _. True)" for ups r
      by (intro kept_await kept ensures_return) simp
    show ?thesis
      unfolding resolveConflict_def Merge Let_def ConflictResolution.case
      by (rule ensures_await [OF clk], rule ensures_await [OF kept_get])
         (rule ensures_await [OF importData_stage rest])
  qed
qed

text \<open>A run that resolves a conflict with \<open>use-cloud\<close>, no call failing, both inserts
  succeeding.\<close>

lemma use_cloud_run:
  assumes "faults w = []"
    and "remote_file w = Some (fid, cloud)"
    and "checksum (metadata cloud) \<noteq> generateChecksum (local_dataset w)"
    and "watermark w \<noteq> Some (checksum (metadata cloud))"
    and "add_rows (clock w) (map (rehydrate (runtime w)) (map wire_row (stats (data cloud))))
           ((db_stats w)\<lparr>rows := []\<rparr>) = Inr t1"
    and "add_rows (clock w) (map (rehydrate (runtime w)) (map wire_row (entries (data cloud))))
           ((db_entries w)\<lparr>rows := []\<rparr>) = Inr t2"
    and "db_settings w = s # rest" and "settings_id s = Some k" and "k \<noteq> 0"
  shows "performSync tok (Some UseCloud) w =
           (result Success ''Cloud data restored to device'',
            w\<lparr>requests := requests w @ [ListFiles, Download fid],
              db_stats := t1, db_entries := t2,
              db_settings :=
                map (\<lambda>s. if settings_id s = Some k
                         then (foldl apply_update s [LastSyncTime (toISOString (clock w)),
                                 LastSyncChecksum (checksum (metadata cloud))])
                               \<lparr>settings_updatedAt := Some (DateObj (clock w))\<rparr>
                         else s)
                    (db_settings w)\<rparr>)"
proof -
  let ?w1 = "w\<lparr>requests := requests w @ [ListFiles, Download fid]\<rparr>"
  have calm1: "faults ?w1 = []"
    using assms(1) by simp
  let ?w2 = "?w1\<lparr>db_stats := t1, db_entries := t2\<rparr>"
  have imported: "importData (stringify_export (stats (data cloud)) (entries (data cloud))
                    (exportedAt (metadata cloud))) ?w1 = (Inr (), ?w2)"
    using assms(5,6) by (simp add: importData_calm [OF calm1])
  have calm2: "faults ?w2 = []"
    using assms(1) by simp
  show ?thesis
    using assms(1-4,7-9) imported
    by (simp add: performSync_def performSync_try_remote resolveConflict_def await_def get_def
        updateSettings_calm [OF calm2] return_def)
qed

lemma add_rows_single:
  assumes "id' c = Some k"
  shows "add_rows now [rehydrate parse (wire_row c)] \<lparr>rows = [], next_key = n\<rparr>
           = Inr \<lparr>rows = [creating_hook now c], next_key = max n (k + 1)\<rparr>"
proof -
  have "id' (creating_hook now c) = Some k"
    using assms by (simp add: hook_id)
  then have "(creating_hook now c)\<lparr>id' := Some k\<rparr> = creating_hook now c"
    by (rule same_id)
  then show ?thesis
    using assms
    by (simp add: add_row_def Let_def hook_rehydrate_wire hook_id)
qed

text \<open>The example device restores the cloud data.\<close>

lemma use_cloud_remote_changed:
  "\<exists>w'. performSync (lit ''token'') (Some UseCloud) world_remote_changed
           = (result Success ''Cloud data restored to device'', w')
        \<and> rows (db_stats w') = [creating_hook 1730626200000 (wire_row stat_mood)]
        \<and> rows (db_entries w') = [creating_hook 1730626200000 entry_cloud]
        \<and> watermark w' = Some (lit ''6975394c'')"
proof -
  have local: "generateChecksum (local_dataset world_remote_changed) = lit ''3ebdc76f''"
    using checksum_mood_five by (simp add: local_dataset_def world_remote_changed_def)
  have h1: "faults world_remote_changed = []"
    by (simp add: world_remote_changed_def)
  have h3: "checksum (metadata cloud_other) \<noteq> generateChecksum (local_dataset world_remote_changed)"
    using lit_checksums_differ(1) by (simp add: local cloud_other_def)
  have h4: "watermark world_remote_changed \<noteq> Some (checksum (metadata cloud_other))"
    using lit_checksums_differ(1)
    by (simp add: watermark_def world_remote_changed_def settings_synced_def cloud_other_def)
  have t1: "add_rows (clock world_remote_changed)
              (map (rehydrate (runtime world_remote_changed)) (map wire_row (stats (data cloud_other))))
              ((db_stats world_remote_changed)\<lparr>rows := []\<rparr>)
            = Inr \<lparr>rows = [creating_hook 1730626200000 (wire_row stat_mood)], next_key = 2\<rparr>"
    using add_rows_single [of "wire_row stat_mood" 1 1730626200000 "runtime world_remote_changed" 2]
    by (simp add: world_remote_changed_def cloud_other_def wire_row_def stat_mood_def)
  have t2: "add_rows (clock world_remote_changed)
              (map (rehydrate (runtime world_remote_changed)) (map wire_row (entries (data cloud_other))))
              ((db_entries world_remote_changed)\<lparr>rows := []\<rparr>)
            = Inr \<lparr>rows = [creating_hook 1730626200000 entry_cloud], next_key = 2\<rparr>"
    using add_rows_single [of entry_cloud 1 1730626200000 "runtime world_remote_changed" 2]
    by (simp add: world_remote_changed_def cloud_other_def entry_cloud_def)
  have h9: "db_settings world_remote_changed = settings_synced # []"
    by (simp add: world_remote_changed_def)
  have h10: "settings_id settings_synced = Some 1" "(1::nat) \<noteq> 0"
    by (simp_all add: settings_synced_def)
  show ?thesis
    using use_cloud_run [OF h1 remote_file_remote_changed h3 h4 t1 t2 h9 h10, of "lit ''token''"]
    by (simp add: watermark_def h9 h10 cloud_other_def)
qed

text \<open>The device with a second entry restores the cloud data.\<close>

lemma use_cloud_both_changed:
  "\<exists>w'. performSync (lit ''token'') (Some UseCloud) world_both_changed
           = (result Success ''Cloud data restored to device'', w')
        \<and> rows (db_stats w') = [creating_hook 1730626200000 (wire_row stat_mood)]
        \<and> rows (db_entries w') = [creating_hook 1730626200000 entry_cloud]
        \<and> watermark w' = Some (lit ''6975394c'')"
proof -
  have local: "generateChecksum (local_dataset world_both_changed)
                 = generateChecksum \<lparr>stats = [stat_mood], entries = [entry_five, entry_seven]\<rparr>"
    by (simp add: local_dataset_def world_both_changed_def world_remote_changed_def)
  have h1: "faults world_both_changed = []"
    by (simp add: world_both_changed_def world_remote_changed_def)
  have h3: "checksum (metadata cloud_other) \<noteq> generateChecksum (local_dataset world_both_changed)"
    using checksum_both_changed by (simp add: local cloud_other_def)
  have h4: "watermark world_both_changed \<noteq> Some (checksum (metadata cloud_other))"
    using lit_checksums_differ(1)
    by (simp add: watermark_def world_both_changed_def world_remote_changed_def
        settings_synced_def cloud_other_def)
  have t1: "add_rows (clock world_both_changed)
              (map (rehydrate (runtime world_both_changed)) (map wire_row (stats (data cloud_other))))
              ((db_stats world_both_changed)\<lparr>rows := []\<rparr>)
            = Inr \<lparr>rows = [creating_hook 1730626200000 (wire_row stat_mood)], next_key = 2\<rparr>"
    using add_rows_single [of "wire_row stat_mood" 1 1730626200000 "runtime world_both_changed" 2]
    by (simp add: world_both_changed_def world_remote_changed_def cloud_other_def wire_row_def stat_mood_def)
  have t2: "add_rows (clock world_both_changed)
              (map (rehydrate (runtime world_both_changed)) (map wire_row (entries (data cloud_other))))
              ((db_entries world_both_changed)\<lparr>rows := []\<rparr>)
            = Inr \<lparr>rows = [creating_hook 1730626200000 entry_cloud], next_key = 3\<rparr>"
    using add_rows_single [of entry_cloud 1 1730626200000 "runtime world_both_changed" 3]
    by (simp add: world_both_changed_def world_remote_changed_def cloud_other_def entry_cloud_def)
  have h9: "db_settings world_both_changed = settings_synced # []"
    by (simp add: world_both_changed_def world_remote_changed_def)
  have h10: "settings_id settings_synced = Some 1" "(1::nat) \<noteq> 0"
    by (simp_all add: settings_synced_def)
  show ?thesis
    using use_cloud_run [OF h1 remote_file_both_changed h3 h4 t1 t2 h9 h10, of "lit ''token''"]
    by (simp add: watermark_def h9 h10 cloud_other_def)
qed








section \<open>The decision table\<close>

text \<open>
  C1. In a run in which no store or transport call fails, when a remote file exists, its
  checksum differs from the checksum of the local data, and the stored watermark differs
  from the remote checksum, and no resolution is supplied, \<open>performSync\<close> reports
  \<open>conflict\<close> and attaches the downloaded cloud backup and the local backup; it uploads
  nothing and writes nothing. The watermark may well equal the local checksum (only the
  remote side changed): the run is a conflict all the same.
\<close>

theorem performSync_conflict:
  assumes "faults w = []"
    and "remote_file w = Some (fid, cloud)"
    and "checksum (metadata cloud) \<noteq> generateChecksum (local_dataset w)"
    and "watermark w \<noteq> Some (checksum (metadata cloud))"
  shows "performSync tok None w =
           (\<lparr>status = Conflict, message = lit ''Both local and cloud data have changed'',
             cloudBackup = Some cloud, localBackup = Some (built w)\<rparr>,
            w\<lparr>requests := requests w @ [ListFiles, Download fid]\<rparr>)"
  using assms
  by (auto simp: performSync_def performSync_try_def await_def getSettings_calm
      buildBackupFile_calm findBackupFile_calm downloadBackup_calm get_def return_def
      result_def remote_file_def watermark_def built_def DEFAULT_SETTINGS_def
      split: option.splits list.splits)

theorem performSync_conflict_witness:
  "watermark world_remote_changed = Some (generateChecksum (local_dataset world_remote_changed))
   \<and> fst (performSync (lit ''token'') None world_remote_changed) =
       \<lparr>status = Conflict, message = lit ''Both local and cloud data have changed'',
        cloudBackup = Some cloud_other, localBackup = Some (built world_remote_changed)\<rparr>"
proof -
  have local: "generateChecksum (local_dataset world_remote_changed) = lit ''3ebdc76f''"
    using checksum_mood_five by (simp add: local_dataset_def world_remote_changed_def)
  have mark: "watermark world_remote_changed = Some (lit ''3ebdc76f'')"
    by (simp add: watermark_def world_remote_changed_def settings_synced_def)
  have remote: "checksum (metadata cloud_other) = lit ''6975394c''"
    by (simp add: cloud_other_def)
  have differ: "lit ''6975394c'' \<noteq> lit ''3ebdc76f''"
    by (simp add: lit_def)
  have h1: "faults world_remote_changed = []"
    by (simp add: world_remote_changed_def)
  have h3: "checksum (metadata cloud_other) \<noteq> generateChecksum (local_dataset world_remote_changed)"
    using differ by (simp add: local remote)
  have h4: "watermark world_remote_changed \<noteq> Some (checksum (metadata cloud_other))"
    using differ by (simp add: mark remote)
  show ?thesis
    using performSync_conflict [OF h1 remote_file_remote_changed h3 h4, of "lit ''token''"]
    by (simp add: mark local)
qed



text \<open>
  C5, as stated, fails: the run that finds the remote checksum equal to the local one also
  writes the identifier of the remote file into the settings (\<open>driveFileId\<close>), not only the
  time of the sync. Here the device had no identifier stored, and has one afterwards.
\<close>

theorem performSync_no_changes_counterexample:
  "faults world_in_sync = []
   \<and> remote_file world_in_sync = Some (lit ''f1'', cloud_same)
   \<and> checksum (metadata cloud_same) = generateChecksum (local_dataset world_in_sync)
   \<and> map driveFileId (db_settings world_in_sync) = [None]
   \<and> map driveFileId (db_settings (snd (performSync (lit ''token'') None world_in_sync)))
       = [Some (lit ''f1'')]"
proof -
  have local: "generateChecksum (local_dataset world_in_sync) = lit ''3ebdc76f''"
    using checksum_mood_five by (simp add: local_dataset_def world_in_sync_def)
  have h1: "faults world_in_sync = []"
    by (simp add: world_in_sync_def)
  have h3: "checksum (metadata cloud_same) = generateChecksum (local_dataset world_in_sync)"
    by (simp add: local cloud_same_def)
  have calm1: "faults (world_in_sync\<lparr>requests := requests world_in_sync
                 @ [ListFiles, Download (lit ''f1'')]\<rparr>) = []"
    using h1 by simp
  have "map driveFileId (db_settings (snd (performSync (lit ''token'') None world_in_sync)))
          = [Some (lit ''f1'')]"
    unfolding performSync_in_sync_run [OF h1 remote_file_in_sync h3] updateSettings_calm [OF calm1]
    by (simp add: world_in_sync_def settings_synced_def)
  moreover have "map driveFileId (db_settings world_in_sync) = [None]"
    by (simp add: world_in_sync_def settings_synced_def)
  ultimately show ?thesis
    using h1 h3 remote_file_in_sync by simp
qed

text \<open>
  C5, amended. In a run in which no store or transport call fails, when a remote file
  exists and its checksum equals the local checksum, \<open>performSync\<close> reports \<open>no-changes\<close>,
  issues no upload (it lists and downloads only), leaves the remote files, the local data
  and the watermark as they were, and changes a settings row in nothing but the time of
  the sync, the identifier of the remote file and the row's modification time; the first
  row, when it carries its key, is so changed.
\<close>

theorem performSync_no_changes:
  assumes "faults w = []"
    and "remote_file w = Some (fid, cloud)"
    and "checksum (metadata cloud) = generateChecksum (local_dataset w)"
  shows "case performSync tok res w of
           (r, w') \<Rightarrow>
             status r = NoChanges
             \<and> requests w' = requests w @ [ListFiles, Download fid]
             \<and> drive w' = drive w \<and> db_stats w' = db_stats w \<and> db_entries w' = db_entries w
             \<and> watermark w' = watermark w
             \<and> list_all2
                   (\<lambda>s s'. s' = s \<or>
                      s' = s\<lparr>driveFileId := Some fid, lastSyncTime := Some (toISOString (clock w)),
                             settings_updatedAt := Some (DateObj (clock w))\<rparr>)
                   (db_settings w) (db_settings w')
             \<and> (\<forall>s rest k. db_settings w = s # rest \<and> settings_id s = Some k \<and> k \<noteq> 0 \<longrightarrow>
                   hd (db_settings w') =
                     s\<lparr>driveFileId := Some fid, lastSyncTime := Some (toISOString (clock w)),
                       settings_updatedAt := Some (DateObj (clock w))\<rparr>)"
proof -
  let ?w1 = "w\<lparr>requests := requests w @ [ListFiles, Download fid]\<rparr>"
  have calm1: "faults ?w1 = []"
    using assms(1) by simp
  have all2: "list_all2 (\<lambda>s s'. s' = s \<or> s' = f s) xs (map (\<lambda>s. if P s then f s else s) xs)"
    for f :: "Settings \<Rightarrow> Settings" and P xs
    by (induction xs) auto
  show ?thesis
    using assms
    by (auto simp: performSync_def performSync_try_remote await_def updateSettings_calm [OF calm1]
        return_def result_def watermark_def all2 list.rel_refl
        split: list.splits option.splits cong: if_cong)
qed

theorem performSync_no_changes_witness:
  "case performSync (lit ''token'') None world_in_sync of
     (r, w') \<Rightarrow>
       status r = NoChanges
       \<and> requests w' = [ListFiles, Download (lit ''f1'')]
       \<and> drive w' = drive world_in_sync
       \<and> watermark w' = Some (lit ''3ebdc76f'')
       \<and> hd (db_settings w') =
           settings_synced\<lparr>driveFileId := Some (lit ''f1''),
             lastSyncTime := Some (toISOString 1730626200000),
             settings_updatedAt := Some (DateObj 1730626200000)\<rparr>"
proof -
  have local: "generateChecksum (local_dataset world_in_sync) = lit ''3ebdc76f''"
    using checksum_mood_five by (simp add: local_dataset_def world_in_sync_def)
  have h1: "faults world_in_sync = []"
    by (simp add: world_in_sync_def)
  have h3: "checksum (metadata cloud_same) = generateChecksum (local_dataset world_in_sync)"
    by (simp add: local cloud_same_def)
  have row: "db_settings world_in_sync = settings_synced # [] \<and> settings_id settings_synced = Some 1
             \<and> (1::nat) \<noteq> 0"
    by (simp add: world_in_sync_def settings_synced_def)
  have obs: "requests world_in_sync = []" "clock world_in_sync = 1730626200000"
    "watermark world_in_sync = Some (lit ''3ebdc76f'')"
    by (simp_all add: world_in_sync_def watermark_def settings_synced_def)
  show ?thesis
    using performSync_no_changes [OF h1 remote_file_in_sync h3, of "lit ''token''" None] row
    by (auto simp: obs split: prod.splits)
qed

section \<open>The checksum\<close>

text \<open>
  C7. \<open>generateChecksum\<close> is a function of the list of stat projections (id, name,
  updatedAt) and the list of entry projections (id, value, updatedAt) alone: two datasets
  with equal projections in the same order have equal checksums. So a change of the date
  or of the stat reference of entries, whatever it is, leaves the checksum as it was. The
  order counts: the two entries of the example, swapped, give another checksum.
\<close>

theorem generateChecksum_projections:
  "(\<forall>a b. map stat_projection (stats a) = map stat_projection (stats b)
          \<and> map entry_projection (entries a) = map entry_projection (entries b)
          \<longrightarrow> generateChecksum a = generateChecksum b)
   \<and> (\<forall>d new_date new_stat.
         generateChecksum (d\<lparr>entries := map (\<lambda>e. e\<lparr>date := new_date e, statId := new_stat e\<rparr>) (entries d)\<rparr>)
           = generateChecksum d)
   \<and> generateChecksum \<lparr>stats = [stat_mood], entries = [entry_five, entry_seven]\<rparr>
       \<noteq> generateChecksum \<lparr>stats = [stat_mood], entries = [entry_seven, entry_five]\<rparr>"
proof (intro conjI allI impI)
  fix a b :: dataset
  assume "map stat_projection (stats a) = map stat_projection (stats b)
          \<and> map entry_projection (entries a) = map entry_projection (entries b)"
  then show "generateChecksum a = generateChecksum b"
    by (simp add: generateChecksum_def)
next
  fix d :: dataset and new_date :: "entry \<Rightarrow> jstring" and new_stat :: "entry \<Rightarrow> nat"
  have "entry_projection \<circ> (\<lambda>e. e\<lparr>date := new_date e, statId := new_stat e\<rparr>) = entry_projection"
    by (rule ext) (simp add: entry_projection_def)
  then show "generateChecksum (d\<lparr>entries := map (\<lambda>e. e\<lparr>date := new_date e, statId := new_stat e\<rparr>) (entries d)\<rparr>)
               = generateChecksum d"
    by (simp add: generateChecksum_def)
next
  show "generateChecksum \<lparr>stats = [stat_mood], entries = [entry_five, entry_seven]\<rparr>
          \<noteq> generateChecksum \<lparr>stats = [stat_mood], entries = [entry_seven, entry_five]\<rparr>"
    by (rule checksum_order_example)
qed

text \<open>The entry of the example, moved to another day and another stat.\<close>

theorem generateChecksum_projections_witness:
  "generateChecksum \<lparr>stats = [stat_mood],
                      entries = [entry_five\<lparr>date := lit ''2024-10-31'', statId := 4\<rparr>]\<rparr>
     = lit ''3ebdc76f''"
proof -
  have "map stat_projection (stats \<lparr>stats = [stat_mood],
            entries = [entry_five\<lparr>date := lit ''2024-10-31'', statId := 4\<rparr>]\<rparr>)
          = map stat_projection (stats \<lparr>stats = [stat_mood], entries = [entry_five]\<rparr>)
        \<and> map entry_projection (entries \<lparr>stats = [stat_mood],
            entries = [entry_five\<lparr>date := lit ''2024-10-31'', statId := 4\<rparr>]\<rparr>)
          = map entry_projection (entries \<lparr>stats = [stat_mood], entries = [entry_five]\<rparr>)"
    by (simp add: entry_projection_def)
  with generateChecksum_projections
  have "generateChecksum \<lparr>stats = [stat_mood],
            entries = [entry_five\<lparr>date := lit ''2024-10-31'', statId := 4\<rparr>]\<rparr>
          = generateChecksum \<lparr>stats = [stat_mood], entries = [entry_five]\<rparr>"
    by blast
  then show ?thesis
    by (simp add: checksum_mood_five)
qed

section \<open>The merge\<close>




section \<open>Failures\<close>

text \<open>
  C3. Whatever a step of a run throws (a store operation, a transport call, a parse) is
  caught: \<open>performSync\<close> returns a result with status \<open>error\<close> and the message of what
  was thrown. In a run that ends in \<open>error\<close> the settings, and so the watermark, are as
  they were; in every run that does not end in \<open>success\<close> the watermark is as it was. So
  the watermark is written only in a run all of whose steps, the upload or import the
  write follows among them, have returned.
\<close>

theorem performSync_error_keeps_watermark:
  "(\<forall>e w'. performSync_try tok res w = (Inl e, w') \<longrightarrow>
      performSync tok res w =
        (\<lparr>status = SyncError,
          message = (case e of Error m \<Rightarrow> m | NonError \<Rightarrow> lit ''Unknown sync error''),
          cloudBackup = None, localBackup = None\<rparr>, w'))
   \<and> (status (fst (performSync tok res w)) = SyncError \<longrightarrow>
        db_settings (snd (performSync tok res w)) = db_settings w)
   \<and> (status (fst (performSync tok res w)) \<noteq> Success \<longrightarrow>
        watermark (snd (performSync tok res w)) = watermark w)"
proof -
  have pre: "unchanged (db_settings w) w"
    by (simp add: unchanged_def)
  note run = performSync_try_quiet [of "db_settings w" tok res]
  show ?thesis
  proof (cases "performSync_try tok res w")
    case (Pair outcome w')
    show ?thesis
    proof (cases outcome)
      case (Inl e)
      with Pair have "unchanged (db_settings w) w'"
        using ensures_Inl [OF run pre] by simp
      then show ?thesis
        using Pair Inl by (simp add: performSync_def unchanged_def watermark_def)
    next
      case (Inr r)
      with Pair have "quiet (db_settings w) r w'"
        using ensures_Inr [OF run pre] by simp
      then show ?thesis
        using Pair Inr by (simp add: performSync_def quiet_def watermark_def)
    qed
  qed
qed

theorem performSync_error_keeps_watermark_witness:
  "fst (performSync (lit ''token'') None world_upload_fails) =
     \<lparr>status = SyncError, message = lit ''Failed to upload backup: 500'',
      cloudBackup = None, localBackup = None\<rparr>
   \<and> db_settings (snd (performSync (lit ''token'') None world_upload_fails))
       = db_settings world_upload_fails
   \<and> watermark (snd (performSync (lit ''token'') None world_upload_fails))
       = Some (lit ''38ac6790'')"
proof -
  have thrown: "fst (performSync_try (lit ''token'') None world_upload_fails)
                  = Inl (Error (lit ''Failed to upload backup: 500''))"
    using lit_checksums_differ(2) checksum_mood_five
    by (simp add: performSync_try_def await_def getSettings_def first_settings_def store_op_def
        next_event_def return_def throw_def get_def modify_def buildBackupFile_def toArray_def
        findBackupFile_def listAppDataFiles_def fetch_def downloadBackup_def host_get_def
        uploadBackup_def world_upload_fails_def world_local_changed_def BACKUP_FILENAME_def
        cloud_stale_def settings_synced_def number_to_string_def to_radix.simps digit_unit_def
        lit_def)
  obtain w' where run: "performSync_try (lit ''token'') None world_upload_fails
                          = (Inl (Error (lit ''Failed to upload backup: 500'')), w')"
    using thrown by (cases "performSync_try (lit ''token'') None world_upload_fails") simp
  have mark: "watermark world_upload_fails = Some (lit ''38ac6790'')"
    by (simp add: watermark_def world_upload_fails_def world_local_changed_def settings_synced_def)
  from performSync_error_keeps_watermark [of "lit ''token''" None world_upload_fails] run
  have result: "performSync (lit ''token'') None world_upload_fails =
                  (\<lparr>status = SyncError, message = lit ''Failed to upload backup: 500'',
                    cloudBackup = None, localBackup = None\<rparr>, w')"
    by simp
  with performSync_error_keeps_watermark [of "lit ''token''" None world_upload_fails]
  show ?thesis
    by (simp add: mark)
qed

section \<open>Resolving a conflict with the cloud data\<close>

text \<open>
  C4. A conflict resolved with \<open>use-cloud\<close> is to replace the local dataset by the cloud
  file's stats and entries. On the device with a second entry the run succeeds, the cloud
  identifiers are kept, the entry that only the device had is gone and the watermark is the
  remote checksum; but the stored entry is not the cloud's entry as the import re-hydrates
  it: the creating hook has set both of its timestamps to the time of the import, and the
  checksum of the local data is not the remote checksum.
\<close>

theorem use_cloud_overwrites_timestamps:
  "(case performSync (lit ''token'') (Some UseCloud) world_both_changed of
      (r, w') \<Rightarrow>
        status r = Success
        \<and> rows (db_stats w') =
            [(wire_row stat_mood)\<lparr>createdAt := DateObj 1730626200000,
                                   updatedAt := DateObj 1730626200000\<rparr>]
        \<and> rows (db_entries w') =
            [entry_cloud\<lparr>createdAt := DateObj 1730626200000, updatedAt := DateObj 1730626200000\<rparr>]
        \<and> rows (db_entries w') \<noteq> map (rehydrate standard_only) (entries (data cloud_other))
        \<and> watermark w' = Some (lit ''6975394c'')
        \<and> generateChecksum (local_dataset w') = lit ''227b5313'')
   \<and> rows (db_entries world_both_changed) = [entry_five, entry_seven]
   \<and> rehydrate standard_only entry_cloud =
       entry_cloud\<lparr>createdAt := DateObj 1730619000123, updatedAt := DateObj 1730622600000\<rparr>"
proof -
  obtain w' where run: "performSync (lit ''token'') (Some UseCloud) world_both_changed
           = (result Success ''Cloud data restored to device'', w')"
    and rows: "rows (db_stats w') = [creating_hook 1730626200000 (wire_row stat_mood)]"
      "rows (db_entries w') = [creating_hook 1730626200000 entry_cloud]"
    and mark: "watermark w' = Some (lit ''6975394c'')"
    using use_cloud_both_changed by blast
  have sum: "generateChecksum (local_dataset w') = lit ''227b5313''"
    using checksum_restored by (simp add: local_dataset_def rows)
  have cloud: "rehydrate standard_only entry_cloud =
       entry_cloud\<lparr>createdAt := DateObj 1730619000123, updatedAt := DateObj 1730622600000\<rparr>"
    by (rule rehydrate_entry_cloud)
  have "creating_hook 1730626200000 entry_cloud \<noteq> rehydrate standard_only entry_cloud"
    unfolding cloud by (simp add: creating_hook_def entry_cloud_def)
  then have differ: "rows (db_entries w') \<noteq> map (rehydrate standard_only) (entries (data cloud_other))"
    by (simp add: rows cloud_other_def)
  have local: "rows (db_entries world_both_changed) = [entry_five, entry_seven]"
    by (simp add: world_both_changed_def)
  show ?thesis
    using differ sum cloud local
    by (simp add: run rows mark result_def creating_hook_def)
qed

section \<open>The timestamps of imported records\<close>

text \<open>C10. Whatever text is imported, and so after every \<open>use-cloud\<close> or \<open>merge\<close>
  resolution, every stored stat and entry has as createdAt and updatedAt the time of the
  import: the creating hook sets both on every insert, whatever the record carried. In a run
  without faults the stored rows of an imported dataset (keyed by distinct identifiers) are
  the records of the dataset with both timestamps replaced. On the example device, after
  \<open>use-cloud\<close>, the checksum of the local data is not the watermark that was recorded, which
  is the remote checksum.\<close>

theorem importData_restamps_records:
  "(\<forall>jt w x w'. importData jt w = (Inr x, w') \<longrightarrow>
       all_hooked (clock w) (db_stats w') \<and> all_hooked (clock w) (db_entries w'))
   \<and> (\<forall>tok fid local cloud resolution w r w'.
         resolution \<noteq> KeepLocal \<longrightarrow>
         resolveConflict tok fid local cloud resolution w = (Inr r, w') \<longrightarrow>
         all_hooked (clock w) (db_stats w') \<and> all_hooked (clock w) (db_entries w'))
   \<and> (\<forall>ss es at (w :: world).
         faults w = [] \<longrightarrow>
         (\<forall>c \<in> set ss. id' c \<noteq> None) \<longrightarrow> distinct (map id' ss) \<longrightarrow>
         (\<forall>c \<in> set es. id' c \<noteq> None) \<longrightarrow> distinct (map id' es) \<longrightarrow>
         (\<exists>w'. importData (stringify_export ss es at) w = (Inr (), w')
            \<and> set (rows (db_stats w')) =
                (\<lambda>c. c\<lparr>createdAt := DateObj (clock w), updatedAt := DateObj (clock w)\<rparr>) ` set ss
            \<and> set (rows (db_entries w')) =
                (\<lambda>c. c\<lparr>createdAt := DateObj (clock w), updatedAt := DateObj (clock w)\<rparr>) ` set es))
   \<and> (case performSync (lit ''token'') (Some UseCloud) world_remote_changed of
         (r, w') \<Rightarrow>
           status r = Success
           \<and> watermark w' = Some (checksum (metadata cloud_other))
           \<and> watermark w' = Some (lit ''6975394c'')
           \<and> generateChecksum (local_dataset w') = lit ''227b5313''
           \<and> Some (generateChecksum (local_dataset w')) \<noteq> watermark w')"
proof (intro conjI allI impI)
  fix jt w x w'
  assume "importData jt w = (Inr x, w')"
  from importData_hooks [OF this]
  show "all_hooked (clock w) (db_stats w')" and "all_hooked (clock w) (db_entries w')"
    by simp_all
next
  fix tok fid local cloud resolution w r w'
  assume res: "resolution \<noteq> KeepLocal"
    and run: "resolveConflict tok fid local cloud resolution w = (Inr r, w')"
  have "import_stage (clock w) True True w'"
    using ensures_Inr [OF resolveConflict_stage [OF res] _ run, of "clock w"] by simp
  then show "all_hooked (clock w) (db_stats w')" and "all_hooked (clock w) (db_entries w')"
    by (simp_all add: import_stage_def)
next
  fix ss :: "stat list" and es :: "entry list" and at and w :: world
  assume calm: "faults w = []"
    and ss: "\<forall>c \<in> set ss. id' c \<noteq> None" "distinct (map id' ss)"
    and es: "\<forall>c \<in> set es. id' c \<noteq> None" "distinct (map id' es)"
  obtain t1 where t1: "add_rows (clock w) (map (rehydrate (runtime w)) (map wire_row ss))
                         ((db_stats w)\<lparr>rows := []\<rparr>) = Inr t1"
    "set (rows t1) = creating_hook (clock w) ` set ss"
    using add_rows_import [OF ss, of "(db_stats w)\<lparr>rows := []\<rparr>" "clock w" "runtime w"] by auto
  obtain t2 where t2: "add_rows (clock w) (map (rehydrate (runtime w)) (map wire_row es))
                         ((db_entries w)\<lparr>rows := []\<rparr>) = Inr t2"
    "set (rows t2) = creating_hook (clock w) ` set es"
    using add_rows_import [OF es, of "(db_entries w)\<lparr>rows := []\<rparr>" "clock w" "runtime w"] by auto
  show "\<exists>w'. importData (stringify_export ss es at) w = (Inr (), w')
            \<and> set (rows (db_stats w')) =
                (\<lambda>c. c\<lparr>createdAt := DateObj (clock w), updatedAt := DateObj (clock w)\<rparr>) ` set ss
            \<and> set (rows (db_entries w')) =
                (\<lambda>c. c\<lparr>createdAt := DateObj (clock w), updatedAt := DateObj (clock w)\<rparr>) ` set es"
    using t1 t2 by (simp add: importData_calm [OF calm] creating_hook_def [abs_def])
next
  obtain w' where run: "performSync (lit ''token'') (Some UseCloud) world_remote_changed
           = (result Success ''Cloud data restored to device'', w')"
    and rows: "rows (db_stats w') = [creating_hook 1730626200000 (wire_row stat_mood)]"
      "rows (db_entries w') = [creating_hook 1730626200000 entry_cloud]"
    and mark: "watermark w' = Some (lit ''6975394c'')"
    using use_cloud_remote_changed by blast
  have "generateChecksum (local_dataset w') = lit ''227b5313''"
    using checksum_restored by (simp add: local_dataset_def rows)
  then show "case performSync (lit ''token'') (Some UseCloud) world_remote_changed of
         (r, w') \<Rightarrow>
           status r = Success
           \<and> watermark w' = Some (checksum (metadata cloud_other))
           \<and> watermark w' = Some (lit ''6975394c'')
           \<and> generateChecksum (local_dataset w') = lit ''227b5313''
           \<and> Some (generateChecksum (local_dataset w')) \<noteq> watermark w'"
    using lit_checksums_differ_restored
    by (simp add: run mark result_def cloud_other_def)
qed

theorem importData_restamps_records_witness:
  "(\<exists>w'. importData (stringify_export [wire_row stat_mood] [entry_cloud]
                        (lit ''2024-11-03T08:30:01.000Z'')) world_remote_changed = (Inr (), w')
      \<and> set (rows (db_entries w')) =
          {entry_cloud\<lparr>createdAt := DateObj 1730626200000, updatedAt := DateObj 1730626200000\<rparr>}
      \<and> all_hooked 1730626200000 (db_entries w'))
   \<and> updatedAt entry_cloud = DateText (lit ''2024-11-03T08:30:00.000Z'')"
proof -
  let ?jt = "stringify_export [wire_row stat_mood] [entry_cloud] (lit ''2024-11-03T08:30:01.000Z'')"
  have calm: "faults world_remote_changed = []"
    and clk: "clock world_remote_changed = 1730626200000"
    by (simp_all add: world_remote_changed_def)
  have ss: "\<forall>c \<in> set [wire_row stat_mood]. id' c \<noteq> None" "distinct (map id' [wire_row stat_mood])"
    by (simp_all add: wire_row_def stat_mood_def)
  have es: "\<forall>c \<in> set [entry_cloud]. id' c \<noteq> None" "distinct (map id' [entry_cloud])"
    by (simp_all add: entry_cloud_def)
  note stamped = importData_restamps_records [THEN conjunct1, rule_format]
  note stored = importData_restamps_records
    [THEN conjunct2, THEN conjunct2, THEN conjunct1, rule_format,
     OF calm ss(1) [rule_format] ss(2) es(1) [rule_format] es(2)]
  obtain w' where all:
    "importData ?jt world_remote_changed = (Inr (), w')
     \<and> set (rows (db_stats w')) =
          (\<lambda>c. c\<lparr>createdAt := DateObj (clock world_remote_changed),
                  updatedAt := DateObj (clock world_remote_changed)\<rparr>) ` set [wire_row stat_mood]
     \<and> set (rows (db_entries w')) =
          (\<lambda>c. c\<lparr>createdAt := DateObj (clock world_remote_changed),
                  updatedAt := DateObj (clock world_remote_changed)\<rparr>) ` set [entry_cloud]"
    using stored [of "lit ''2024-11-03T08:30:01.000Z''"] by (rule exE)
  then have run: "importData ?jt world_remote_changed = (Inr (), w')"
    by (rule conjunct1)
  have rows: "set (rows (db_entries w')) =
      {entry_cloud\<lparr>createdAt := DateObj 1730626200000, updatedAt := DateObj 1730626200000\<rparr>}"
    using all [THEN conjunct2, THEN conjunct2] by (simp add: clk)
  have hooked: "all_hooked 1730626200000 (db_entries w')"
    using stamped [OF run, THEN conjunct2] by (simp add: clk)
  have "updatedAt entry_cloud = DateText (lit ''2024-11-03T08:30:00.000Z'')"
    by (simp add: entry_cloud_def)
  with run rows hooked show ?thesis
    by (intro conjI exI [of _ w']) simp_all
qed

section \<open>Manual export and import\<close>




end
